theory Spec2Isabelle
  imports Main
begin

section \<open>Floating-IP manager of nova.network.floating_ips\<close>

text \<open>
  A shallow embedding of the \<^verbatim>\<open>FloatingIP\<close> mixin of
  \<^verbatim>\<open>src/nova/network/floating_ips.py\<close>. Every method becomes a function from the
  world (store tables, driver state and the logs of calls issued to the external
  collaborators) to an outcome and the world the call leaves behind. A raised exception is
  the outcome \<open>Inl e\<close>; the world next to it holds every mutation made before the raise,
  exactly as an exception leaves the store in Python.
\<close>

subsection \<open>Records of the store\<close>

text \<open>
  Modelled from the spec: the FloatingIP, FixedIP, Network, Instance, Service and DNSDomain
  rows (section 3 of the specification; \<^verbatim>\<open>nova.db\<close> is not among the sources).
  Nullable columns are options.
\<close>

record floating_ip =
  fl_address :: string
  fl_pool :: string
  fl_project_id :: "string option"
  fl_fixed_ip_id :: "nat option"
  fl_auto_assigned :: bool
  fl_host :: "string option"
  fl_interface :: "string option"

record network =
  nw_id :: nat
  nw_multi_host :: bool
  nw_host :: "string option"

record fixed_ip =
  fx_id :: nat
  fx_address :: string
  fx_instance_uuid :: "string option"
  fx_network_id :: nat

record instance_row =
  in_uuid :: string
  in_host :: "string option"

record service =
  sv_host :: "string option"
  sv_topic :: string
  sv_is_up :: bool

datatype dns_scope = Private | Public

record dnsdomain =
  dd_domain :: string
  dd_scope :: dns_scope
  dd_availability_zone :: "string option"
  dd_project_id :: "string option"

text \<open>
  Modelled from the spec: the request context (\<^verbatim>\<open>nova.context\<close> is not among the
  sources) carries the admin flag and the caller's project. The project is an attribute
  that Python lets be None, and \<open>floating_ip_owned_by_project\<close> compares it as such.
\<close>

record req_context =
  is_admin :: bool
  project_id :: "string option"

definition elevated :: "req_context \<Rightarrow> req_context" where
  "elevated ctx = ctx\<lparr>is_admin := True\<rparr>"

subsection \<open>Exceptions\<close>

datatype error =
    NotAuthorized
  | OverQuota
  | FloatingIpLimitExceeded
  | NoMoreFloatingIps
  | FloatingIpNotFoundForAddress string
  | FixedIpNotFound "nat option"
  | FixedIpNotFoundForAddress string
  | NetworkNotFound nat
  | InstanceNotFound "string option"
  | DnsDomainNotFound string
  | FloatingIpAssociated string
  | FloatingIpNotAssociated string
  | CannotDisassociateAutoAssignedFloatingIP
  | NoFloatingIpInterface "string option"
  | ProcessExecutionError string
  | ClientException error
  | OtherError string

subsection \<open>Calls issued to the collaborators\<close>

datatype l3_call =
    AddFloatingIp string string "string option" "network option"
  | RemoveFloatingIp string string "string option" "network option"
  | CleanConntrack string

datatype quota_event =
    Reserved "string list" int
  | Commit "string list"
  | Rollback "string list"

datatype event_type = EvAllocate | EvDeallocate | EvAssociate | EvDisassociate

datatype payload =
    AllocatePayload string string
  | DeallocatePayload "string option" string
  | BindingPayload "string option" "string option" string

datatype log_line =
    WarnNotAllocated string
  | WarnNotYours string "string option"
  | WarnQuotaExceeded "string option"
  | ExcFailedUsages
  | ErrInterfaceNotFound "string option"
  | InfoMigrationStart string
  | WarnWillNotMigrate string string
  | InfoMigrationFinish string
  | WarnWillNotSetup string string
  | WarnDnsInconsistency string

datatype ext_call =
    DbFloatingIpGetByAddress string
  | DbFloatingIpAllocateAddress string string
  | DbFloatingIpDeallocate string
  | DbFloatingIpFixedIpAssociate string string "string option"
  | DbFloatingIpDisassociate string
  | DbFloatingIpUpdate string "string option"
  | DbFixedIpGet "nat option"
  | DbFixedIpGetByAddress string
  | DbNetworkGet nat
  | DbInstanceGetByUuid "string option"
  | DbServiceGetByHostAndTopic "string option" string
  | DbDnsdomainList
  | DbDnsdomainGet string
  | QuotaCommit "string list"
  | QuotaRollback "string list"
  | Notify event_type payload
  | DnsGetDomains bool
  | DnsGetEntriesByAddress string string
  | DnsDeleteEntry string string
  | RpcAssociate string string "string option" "string option" "string option"
  | RpcDisassociate string "string option" "string option" "string option"

subsection \<open>The world\<close>

record dns_driver =
  dns_domains :: "string list"
  dns_entries :: "(string \<times> string \<times> string) list"

record world =
  floating_ips :: "floating_ip list"
  fixed_ips :: "fixed_ip list"
  networks :: "network list"
  instances :: "instance_row list"
  services :: "service list"
  dnsdomains :: "dnsdomain list"
  floating_dns :: dns_driver
  instance_dns :: dns_driver
  quota_log :: "quota_event list"
  l3_log :: "(string option \<times> l3_call) list"
  notifications :: "(event_type \<times> payload) list"
  rpc_log :: "ext_call list"
  log_lines :: "log_line list"

text \<open>
  The manager's own attributes and configuration (\<^verbatim>\<open>self.host\<close>,
  \<^verbatim>\<open>CONF.public_interface\<close>, \<^verbatim>\<open>CONF.default_floating_pool\<close>,
  \<^verbatim>\<open>CONF.network_topic\<close>) and the behaviour of the collaborators that the manager
  cannot see: which external call raises (\<open>fault\<close>, asked in the world at the moment of
  the call), what a quota reservation answers (\<open>reserve_answer\<close>) and when the L3 driver's
  command fails (\<open>l3_fault\<close>, the exception it raises). By the driver's contract in
  the specification (section 6) a failure surfaces as a process-execution error carrying a
  message; the manager's handler tests for exactly that type, so the environment may also
  name another exception.
\<close>

record env =
  self_host :: "string option"
  public_interface :: string
  default_floating_pool :: string
  network_topic :: string
  fault :: "world \<Rightarrow> ext_call \<Rightarrow> error option"
  reserve_answer :: "world \<Rightarrow> req_context \<Rightarrow> int \<Rightarrow> error + string list"
  l3_fault :: "world \<Rightarrow> l3_call \<Rightarrow> error option"

subsection \<open>Outcomes: a value or a raised exception, next to the world left behind\<close>

type_synonym 'a outcome = "(error + 'a) \<times> world"

definition returnE :: "'a \<Rightarrow> world \<Rightarrow> 'a outcome" where
  "returnE x w = (Inr x, w)"

definition raise :: "error \<Rightarrow> world \<Rightarrow> 'a outcome" where
  "raise e w = (Inl e, w)"

definition bindE :: "(world \<Rightarrow> 'a outcome) \<Rightarrow> ('a \<Rightarrow> world \<Rightarrow> 'b outcome) \<Rightarrow> world \<Rightarrow> 'b outcome" where
  "bindE m f w = (case m w of (Inl e, w') \<Rightarrow> (Inl e, w') | (Inr x, w') \<Rightarrow> f x w')"

definition thenE :: "(world \<Rightarrow> unit outcome) \<Rightarrow> (world \<Rightarrow> 'b outcome) \<Rightarrow> world \<Rightarrow> 'b outcome" where
  "thenE m k = bindE m (\<lambda>_. k)"

text \<open>An external call first asks the environment whether it raises.\<close>

definition checked :: "env \<Rightarrow> ext_call \<Rightarrow> (world \<Rightarrow> 'a outcome) \<Rightarrow> world \<Rightarrow> 'a outcome" where
  "checked E c m w = (case fault E w c of Some e \<Rightarrow> (Inl e, w) | None \<Rightarrow> m w)"

definition log :: "log_line \<Rightarrow> world \<Rightarrow> unit outcome" where
  "log l w = (Inr (), w\<lparr>log_lines := log_lines w @ [l]\<rparr>)"

text \<open>Python truthiness of the values the manager tests.\<close>

definition truthy_id :: "nat option \<Rightarrow> bool" where
  "truthy_id i = (case i of None \<Rightarrow> False | Some n \<Rightarrow> n \<noteq> 0)"

definition truthy_str :: "string option \<Rightarrow> bool" where
  "truthy_str s = (case s of None \<Rightarrow> False | Some x \<Rightarrow> x \<noteq> [])"

text \<open>\<^verbatim>\<open>CONF.public_interface or interface\<close>\<close>

definition or_interface :: "env \<Rightarrow> string option \<Rightarrow> string option" where
  "or_interface E interface =
     (if public_interface E \<noteq> [] then Some (public_interface E) else interface)"

text \<open>
  \<^verbatim>\<open>rpc_common.client_exceptions(exception.FloatingIpNotFoundForAddress)\<close>: the
  decorator re-raises an exception of exactly the listed type wrapped as a client
  exception and lets every other one through.
\<close>

definition client_exceptions :: "(world \<Rightarrow> 'a outcome) \<Rightarrow> world \<Rightarrow> 'a outcome" where
  "client_exceptions m w =
     (case m w of
        (Inl (FloatingIpNotFoundForAddress a), w') \<Rightarrow>
          (Inl (ClientException (FloatingIpNotFoundForAddress a)), w')
      | r \<Rightarrow> r)"


text \<open>\<^verbatim>\<open>try: ... except Exception as e: ...\<close>\<close>

definition try_except :: "(world \<Rightarrow> 'a outcome) \<Rightarrow> (error \<Rightarrow> world \<Rightarrow> 'a outcome) \<Rightarrow> world \<Rightarrow> 'a outcome" where
  "try_except m h w = (case m w of (Inl e, w') \<Rightarrow> h e w' | (Inr x, w') \<Rightarrow> (Inr x, w'))"

text \<open>
  \<^verbatim>\<open>with excutils.save_and_reraise_exception(): body\<close> inside a handler for \<open>e\<close>:
  the body runs; an exception of the body replaces \<open>e\<close>, otherwise \<open>e\<close> is raised again.
\<close>

definition save_and_reraise_exception :: "error \<Rightarrow> (world \<Rightarrow> unit outcome) \<Rightarrow> world \<Rightarrow> 'a outcome" where
  "save_and_reraise_exception e body w =
     (case body w of (Inl e2, w') \<Rightarrow> (Inl e2, w') | (Inr _, w') \<Rightarrow> (Inl e, w'))"

subsection \<open>Store gateway\<close>

text \<open>
  Modelled from the spec: the operations of the store gateway that the manager consumes
  (section 6; \<^verbatim>\<open>nova.db\<close> is not among the sources). A lookup of a missing row raises
  the not-found error of its table; the address is the key of a floating IP. Every
  operation may also raise whatever the environment's \<open>fault\<close> says.
\<close>

definition find_floating :: "string \<Rightarrow> floating_ip list \<Rightarrow> floating_ip option" where
  "find_floating a tbl = find (\<lambda>r. fl_address r = a) tbl"

definition update_floating :: "string \<Rightarrow> (floating_ip \<Rightarrow> floating_ip) \<Rightarrow> floating_ip list \<Rightarrow> floating_ip list" where
  "update_floating a f tbl = map (\<lambda>r. if fl_address r = a then f r else r) tbl"

definition join_network :: "world \<Rightarrow> fixed_ip \<Rightarrow> network option" where
  "join_network w fx = find (\<lambda>n. nw_id n = fx_network_id fx) (networks w)"

definition db_floating_ip_get_by_address :: "env \<Rightarrow> req_context \<Rightarrow> string \<Rightarrow> world \<Rightarrow> floating_ip outcome" where
  "db_floating_ip_get_by_address E ctx a =
     checked E (DbFloatingIpGetByAddress a) (\<lambda>w.
       case find_floating a (floating_ips w) of
         None \<Rightarrow> (Inl (FloatingIpNotFoundForAddress a), w)
       | Some r \<Rightarrow> (Inr r, w))"

text \<open>An unowned address of the pool is assigned to the project; the answer is the address.\<close>

definition db_floating_ip_allocate_address :: "env \<Rightarrow> req_context \<Rightarrow> string \<Rightarrow> string \<Rightarrow> world \<Rightarrow> string outcome" where
  "db_floating_ip_allocate_address E ctx project pool =
     checked E (DbFloatingIpAllocateAddress project pool) (\<lambda>w.
       case find (\<lambda>r. fl_project_id r = None \<and> fl_pool r = pool) (floating_ips w) of
         None \<Rightarrow> (Inl NoMoreFloatingIps, w)
       | Some r \<Rightarrow>
           (Inr (fl_address r),
            w\<lparr>floating_ips :=
                update_floating (fl_address r) (\<lambda>x. x\<lparr>fl_project_id := Some project\<rparr>) (floating_ips w)\<rparr>))"

text \<open>The owning project is cleared.\<close>

definition db_floating_ip_deallocate :: "env \<Rightarrow> req_context \<Rightarrow> string \<Rightarrow> world \<Rightarrow> unit outcome" where
  "db_floating_ip_deallocate E ctx a =
     checked E (DbFloatingIpDeallocate a) (\<lambda>w.
       (Inr (), w\<lparr>floating_ips := update_floating a (\<lambda>x. x\<lparr>fl_project_id := None\<rparr>) (floating_ips w)\<rparr>))"

text \<open>
  The atomic bind: the binding floating to fixed is set and tagged with the host, and the
  fixed IP joined with its network is the answer; when the floating IP was already bound to
  that fixed IP nothing is written and the answer is none.
\<close>

definition db_floating_ip_fixed_ip_associate :: "env \<Rightarrow> req_context \<Rightarrow> string \<Rightarrow> string \<Rightarrow> string option \<Rightarrow> world \<Rightarrow> (fixed_ip \<times> network option) option outcome" where
  "db_floating_ip_fixed_ip_associate E ctx fa fxa h =
     checked E (DbFloatingIpFixedIpAssociate fa fxa h) (\<lambda>w.
       case find_floating fa (floating_ips w) of
         None \<Rightarrow> (Inl (FloatingIpNotFoundForAddress fa), w)
       | Some r \<Rightarrow>
          (case find (\<lambda>x. fx_address x = fxa) (fixed_ips w) of
             None \<Rightarrow> (Inl (FixedIpNotFoundForAddress fxa), w)
           | Some fx \<Rightarrow>
               if fl_fixed_ip_id r = Some (fx_id fx) then (Inr None, w)
               else (Inr (Some (fx, join_network w fx)),
                     w\<lparr>floating_ips :=
                         update_floating fa (\<lambda>x. x\<lparr>fl_fixed_ip_id := Some (fx_id fx), fl_host := h\<rparr>)
                           (floating_ips w)\<rparr>)))"

text \<open>
  The atomic unbind: the binding and the host tag are cleared, and the fixed IP that was
  bound, joined with its network, is the answer (none when the binding was already clear).
\<close>

definition db_floating_ip_disassociate :: "env \<Rightarrow> req_context \<Rightarrow> string \<Rightarrow> world \<Rightarrow> (fixed_ip \<times> network option) option outcome" where
  "db_floating_ip_disassociate E ctx a =
     checked E (DbFloatingIpDisassociate a) (\<lambda>w.
       case find_floating a (floating_ips w) of
         None \<Rightarrow> (Inl (FloatingIpNotFoundForAddress a), w)
       | Some r \<Rightarrow>
           (Inr (map_option (\<lambda>fx. (fx, join_network w fx))
                   (find (\<lambda>x. Some (fx_id x) = fl_fixed_ip_id r) (fixed_ips w))),
            w\<lparr>floating_ips :=
                update_floating a (\<lambda>x. x\<lparr>fl_fixed_ip_id := None, fl_host := None\<rparr>) (floating_ips w)\<rparr>))"

definition db_floating_ip_update :: "env \<Rightarrow> req_context \<Rightarrow> string \<Rightarrow> string option \<Rightarrow> world \<Rightarrow> unit outcome" where
  "db_floating_ip_update E ctx a h =
     checked E (DbFloatingIpUpdate a h) (\<lambda>w.
       case find_floating a (floating_ips w) of
         None \<Rightarrow> (Inl (FloatingIpNotFoundForAddress a), w)
       | Some r \<Rightarrow>
           (Inr (), w\<lparr>floating_ips := update_floating a (\<lambda>x. x\<lparr>fl_host := h\<rparr>) (floating_ips w)\<rparr>))"

text \<open>The fixed IP of an id; with \<open>get_network\<close> it comes joined with its network.\<close>

definition db_fixed_ip_get :: "env \<Rightarrow> req_context \<Rightarrow> nat option \<Rightarrow> bool \<Rightarrow> world \<Rightarrow> (fixed_ip \<times> network option) outcome" where
  "db_fixed_ip_get E ctx i get_network =
     checked E (DbFixedIpGet i) (\<lambda>w.
       case find (\<lambda>x. Some (fx_id x) = i) (fixed_ips w) of
         None \<Rightarrow> (Inl (FixedIpNotFound i), w)
       | Some fx \<Rightarrow> (Inr (fx, if get_network then join_network w fx else None), w))"

definition db_fixed_ip_get_by_address :: "env \<Rightarrow> req_context \<Rightarrow> string \<Rightarrow> world \<Rightarrow> fixed_ip outcome" where
  "db_fixed_ip_get_by_address E ctx a =
     checked E (DbFixedIpGetByAddress a) (\<lambda>w.
       case find (\<lambda>x. fx_address x = a) (fixed_ips w) of
         None \<Rightarrow> (Inl (FixedIpNotFoundForAddress a), w)
       | Some fx \<Rightarrow> (Inr fx, w))"

definition db_network_get :: "env \<Rightarrow> req_context \<Rightarrow> nat \<Rightarrow> world \<Rightarrow> network outcome" where
  "db_network_get E ctx i =
     checked E (DbNetworkGet i) (\<lambda>w.
       case find (\<lambda>n. nw_id n = i) (networks w) of
         None \<Rightarrow> (Inl (NetworkNotFound i), w)
       | Some n \<Rightarrow> (Inr n, w))"

definition db_instance_get_by_uuid :: "env \<Rightarrow> req_context \<Rightarrow> string option \<Rightarrow> world \<Rightarrow> instance_row outcome" where
  "db_instance_get_by_uuid E ctx u =
     checked E (DbInstanceGetByUuid u) (\<lambda>w.
       case find (\<lambda>x. Some (in_uuid x) = u) (instances w) of
         None \<Rightarrow> (Inl (InstanceNotFound u), w)
       | Some x \<Rightarrow> (Inr x, w))"

text \<open>The service registered for a host and topic, or none.\<close>

definition db_service_get_by_host_and_topic :: "env \<Rightarrow> req_context \<Rightarrow> string option \<Rightarrow> string \<Rightarrow> world \<Rightarrow> service option outcome" where
  "db_service_get_by_host_and_topic E ctx h topic =
     checked E (DbServiceGetByHostAndTopic h topic) (\<lambda>w.
       (Inr (find (\<lambda>s. sv_host s = h \<and> sv_topic s = topic) (services w)), w))"

definition db_dnsdomain_list :: "env \<Rightarrow> req_context \<Rightarrow> world \<Rightarrow> string list outcome" where
  "db_dnsdomain_list E ctx =
     checked E DbDnsdomainList (\<lambda>w. (Inr (map dd_domain (dnsdomains w)), w))"

definition db_dnsdomain_get :: "env \<Rightarrow> req_context \<Rightarrow> string \<Rightarrow> world \<Rightarrow> dnsdomain outcome" where
  "db_dnsdomain_get E ctx d =
     checked E (DbDnsdomainGet d) (\<lambda>w.
       case find (\<lambda>x. dd_domain x = d) (dnsdomains w) of
         None \<Rightarrow> (Inl (DnsDomainNotFound d), w)
       | Some x \<Rightarrow> (Inr x, w))"

subsection \<open>Quota gateway, notifier, drivers\<close>

text \<open>
  Modelled from the spec: \<open>reserve\<close> answers a reservation handle or raises (\<open>OverQuota\<close>
  among others); \<open>commit\<close> and \<open>rollback\<close> take the handle (section 6; \<^verbatim>\<open>nova.quota\<close>
  is not among the sources). The quota log records every reservation obtained and every
  commit and rollback issued, whether or not the call then raises.
\<close>

definition quotas_reserve :: "env \<Rightarrow> req_context \<Rightarrow> int \<Rightarrow> world \<Rightarrow> string list outcome" where
  "quotas_reserve E ctx delta w =
     (case reserve_answer E w ctx delta of
        Inl e \<Rightarrow> (Inl e, w)
      | Inr h \<Rightarrow> (Inr h, w\<lparr>quota_log := quota_log w @ [Reserved h delta]\<rparr>))"

definition quotas_commit :: "env \<Rightarrow> req_context \<Rightarrow> string list \<Rightarrow> world \<Rightarrow> unit outcome" where
  "quotas_commit E ctx h w =
     (case fault E w (QuotaCommit h) of
        Some e \<Rightarrow> (Inl e, w\<lparr>quota_log := quota_log w @ [Commit h]\<rparr>)
      | None \<Rightarrow> (Inr (), w\<lparr>quota_log := quota_log w @ [Commit h]\<rparr>))"

definition quotas_rollback :: "env \<Rightarrow> req_context \<Rightarrow> string list \<Rightarrow> world \<Rightarrow> unit outcome" where
  "quotas_rollback E ctx h w =
     (case fault E w (QuotaRollback h) of
        Some e \<Rightarrow> (Inl e, w\<lparr>quota_log := quota_log w @ [Rollback h]\<rparr>)
      | None \<Rightarrow> (Inr (), w\<lparr>quota_log := quota_log w @ [Rollback h]\<rparr>))"

definition notify :: "env \<Rightarrow> event_type \<Rightarrow> payload \<Rightarrow> world \<Rightarrow> unit outcome" where
  "notify E ev p =
     checked E (Notify ev p) (\<lambda>w. (Inr (), w\<lparr>notifications := notifications w @ [(ev, p)]\<rparr>))"

text \<open>
  Modelled from the spec: the L3 driver (section 6). Every command issued is recorded with
  the host that issued it; a failing command raises the exception the environment names.
\<close>

definition l3driver :: "env \<Rightarrow> l3_call \<Rightarrow> world \<Rightarrow> unit outcome" where
  "l3driver E c w =
     (case l3_fault E w c of
        Some e \<Rightarrow> (Inl e, w\<lparr>l3_log := l3_log w @ [(self_host E, c)]\<rparr>)
      | None \<Rightarrow> (Inr (), w\<lparr>l3_log := l3_log w @ [(self_host E, c)]\<rparr>))"

text \<open>
  Modelled from the spec: the floating-pool DNS driver and the instance DNS driver
  (section 6), each a list of domains and a list of entries (name, address, domain).
\<close>

definition floating_dns_get_domains :: "env \<Rightarrow> world \<Rightarrow> string list outcome" where
  "floating_dns_get_domains E =
     checked E (DnsGetDomains True) (\<lambda>w. (Inr (dns_domains (floating_dns w)), w))"

definition instance_dns_get_domains :: "env \<Rightarrow> world \<Rightarrow> string list outcome" where
  "instance_dns_get_domains E =
     checked E (DnsGetDomains False) (\<lambda>w. (Inr (dns_domains (instance_dns w)), w))"

definition floating_dns_get_entries_by_address :: "env \<Rightarrow> string \<Rightarrow> string \<Rightarrow> world \<Rightarrow> string list outcome" where
  "floating_dns_get_entries_by_address E a d =
     checked E (DnsGetEntriesByAddress a d) (\<lambda>w.
       (Inr (map fst (filter (\<lambda>(n, a', d'). a' = a \<and> d' = d) (dns_entries (floating_dns w)))), w))"

definition floating_dns_delete_entry :: "env \<Rightarrow> string \<Rightarrow> string \<Rightarrow> world \<Rightarrow> unit outcome" where
  "floating_dns_delete_entry E n d =
     checked E (DnsDeleteEntry n d) (\<lambda>w.
       (Inr (), w\<lparr>floating_dns := (floating_dns w)\<lparr>dns_entries :=
                     filter (\<lambda>(n', a', d'). \<not> (n' = n \<and> d' = d)) (dns_entries (floating_dns w))\<rparr>\<rparr>))"


subsection \<open>Loops and string search\<close>

text \<open>\<^verbatim>\<open>for x in xs: body\<close>; a \<^verbatim>\<open>continue\<close> is the body returning early.\<close>

fun for_each :: "'a list \<Rightarrow> ('a \<Rightarrow> world \<Rightarrow> unit outcome) \<Rightarrow> world \<Rightarrow> unit outcome" where
  "for_each [] body = returnE ()"
| "for_each (x # xs) body = thenE (body x) (for_each xs body)"

fun starts_with :: "string \<Rightarrow> string \<Rightarrow> bool" where
  "starts_with [] ys = True"
| "starts_with (x # xs) [] = False"
| "starts_with (x # xs) (y # ys) = (x = y \<and> starts_with xs ys)"

text \<open>\<^verbatim>\<open>needle in haystack\<close> on strings.\<close>

fun str_in :: "string \<Rightarrow> string \<Rightarrow> bool" where
  "str_in needle [] = (needle = [])"
| "str_in needle (y # ys) = (starts_with needle (y # ys) \<or> str_in needle ys)"

subsection \<open>Ownership check and allocation\<close>

text \<open>
  Python names with a leading underscore are written with the prefix \<open>u_\<close>
  (\<^verbatim>\<open>_associate_floating_ip\<close> is \<open>u_associate_floating_ip\<close>), except where no
  public name of the same spelling exists.
\<close>

definition floating_ip_owned_by_project :: "env \<Rightarrow> req_context \<Rightarrow> floating_ip \<Rightarrow> world \<Rightarrow> unit outcome" where
  "floating_ip_owned_by_project E ctx floating_ip =
     (if is_admin ctx then returnE ()
      else if fl_project_id floating_ip \<noteq> project_id ctx then
        (if fl_project_id floating_ip = None then
           thenE (log (WarnNotAllocated (fl_address floating_ip))) (raise NotAuthorized)
         else
           thenE (log (WarnNotYours (fl_address floating_ip) (project_id ctx))) (raise NotAuthorized))
      else returnE ())"

definition allocate_floating_ip :: "env \<Rightarrow> req_context \<Rightarrow> string \<Rightarrow> bool \<Rightarrow> string option \<Rightarrow> world \<Rightarrow> string outcome" where
  "allocate_floating_ip E ctx project auto_assigned pool =
     (let pool = (case pool of
                    Some p \<Rightarrow> if p \<noteq> [] then p else default_floating_pool E
                  | None \<Rightarrow> default_floating_pool E);
          use_quota = \<not> auto_assigned
      in
      bindE
        (try_except
           (if use_quota then bindE (quotas_reserve E ctx 1) (\<lambda>r. returnE (Some r))
            else returnE None)
           (\<lambda>e. if e = OverQuota then
                   thenE (log (WarnQuotaExceeded (project_id ctx))) (raise FloatingIpLimitExceeded)
                 else raise e))
        (\<lambda>reservations.
           try_except
             (bindE (db_floating_ip_allocate_address E ctx project pool) (\<lambda>floating_ip.
                thenE (notify E EvAllocate (AllocatePayload project floating_ip))
               (thenE (if use_quota then
                         (case reservations of Some r \<Rightarrow> quotas_commit E ctx r | None \<Rightarrow> returnE ())
                       else returnE ())
                (returnE floating_ip))))
             (\<lambda>e. save_and_reraise_exception e
                     (if use_quota then
                        (case reservations of Some r \<Rightarrow> quotas_rollback E ctx r | None \<Rightarrow> returnE ())
                      else returnE ()))))"

subsection \<open>DNS entries of an address\<close>

datatype domain_entry =
    ZoneDomain string dns_scope "string option"
  | ProjectDomain string dns_scope "string option"

fun entry_domain :: "domain_entry \<Rightarrow> string" where
  "entry_domain (ZoneDomain d _ _) = d"
| "entry_domain (ProjectDomain d _ _) = d"

definition prepare_domain_entry :: "env \<Rightarrow> req_context \<Rightarrow> string \<Rightarrow> world \<Rightarrow> domain_entry outcome" where
  "prepare_domain_entry E ctx domain =
     bindE (db_dnsdomain_get E ctx domain) (\<lambda>domainref.
       let scope = dd_scope domainref in
       if scope = Private then
         returnE (ZoneDomain domain scope (dd_availability_zone domainref))
       else
         returnE (ProjectDomain domain scope (dd_project_id domainref)))"

fun get_dns_domains_loop :: "env \<Rightarrow> req_context \<Rightarrow> string list \<Rightarrow> string list \<Rightarrow> string list \<Rightarrow> domain_entry list \<Rightarrow> world \<Rightarrow> domain_entry list outcome" where
  "get_dns_domains_loop E ctx fl il [] domains = returnE domains"
| "get_dns_domains_loop E ctx fl il (db_domain # rest) domains =
     (if db_domain \<in> set fl \<or> db_domain \<in> set il then
        bindE (prepare_domain_entry E ctx db_domain) (\<lambda>domain_entry.
          get_dns_domains_loop E ctx fl il rest (domains @ [domain_entry]))
      else
        thenE (log (WarnDnsInconsistency db_domain))
          (get_dns_domains_loop E ctx fl il rest domains))"

definition get_dns_domains :: "env \<Rightarrow> req_context \<Rightarrow> world \<Rightarrow> domain_entry list outcome" where
  "get_dns_domains E ctx =
     bindE (db_dnsdomain_list E ctx) (\<lambda>db_domain_list.
     bindE (floating_dns_get_domains E) (\<lambda>floating_driver_domain_list.
     bindE (instance_dns_get_domains E) (\<lambda>instance_driver_domain_list.
       get_dns_domains_loop E ctx floating_driver_domain_list instance_driver_domain_list
         db_domain_list [])))"

definition get_dns_entries_by_address :: "env \<Rightarrow> req_context \<Rightarrow> string \<Rightarrow> string \<Rightarrow> world \<Rightarrow> string list outcome" where
  "get_dns_entries_by_address E ctx address domain =
     floating_dns_get_entries_by_address E address domain"

definition delete_dns_entry :: "env \<Rightarrow> req_context \<Rightarrow> string \<Rightarrow> string \<Rightarrow> world \<Rightarrow> unit outcome" where
  "delete_dns_entry E ctx name domain = floating_dns_delete_entry E name domain"

definition delete_all_entries_for_ip :: "env \<Rightarrow> req_context \<Rightarrow> string \<Rightarrow> world \<Rightarrow> unit outcome" where
  "delete_all_entries_for_ip E ctx address =
     bindE (get_dns_domains E ctx) (\<lambda>domain_list.
       for_each domain_list (\<lambda>domain.
         bindE (get_dns_entries_by_address E ctx address (entry_domain domain)) (\<lambda>names.
           for_each names (\<lambda>name. delete_dns_entry E ctx name (entry_domain domain)))))"

subsection \<open>Deallocation\<close>

definition deallocate_floating_ip :: "env \<Rightarrow> req_context \<Rightarrow> string \<Rightarrow> bool \<Rightarrow> world \<Rightarrow> unit outcome" where
  "deallocate_floating_ip E ctx address affect_auto_assigned =
     client_exceptions
      (bindE (db_floating_ip_get_by_address E ctx address) (\<lambda>floating_ip.
        if \<not> affect_auto_assigned \<and> fl_auto_assigned floating_ip then returnE ()
        else
          let use_quota = \<not> fl_auto_assigned floating_ip in
          thenE (floating_ip_owned_by_project E ctx floating_ip)
         (if truthy_id (fl_fixed_ip_id floating_ip) then
            raise (FloatingIpAssociated (fl_address floating_ip))
          else
            thenE (delete_all_entries_for_ip E ctx (fl_address floating_ip))
           (thenE (notify E EvDeallocate
                     (DeallocatePayload (fl_project_id floating_ip) (fl_address floating_ip)))
           (bindE
              (try_except
                 (if use_quota then bindE (quotas_reserve E ctx (- 1)) (\<lambda>r. returnE (Some r))
                  else returnE None)
                 (\<lambda>e. thenE (log ExcFailedUsages) (returnE None)))
              (\<lambda>reservations.
                 thenE (db_floating_ip_deallocate E ctx address)
                   (case reservations of
                      Some r \<Rightarrow> if r \<noteq> [] then quotas_commit E ctx r else returnE ()
                    | None \<Rightarrow> returnE ())))))))"


subsection \<open>Local binding and unbinding\<close>

text \<open>
  The lock of \<^verbatim>\<open>utils.synchronized\<close> orders concurrent calls on one address; a
  single call runs as written here.
\<close>

definition u_associate_floating_ip :: "env \<Rightarrow> req_context \<Rightarrow> string \<Rightarrow> string \<Rightarrow> string option \<Rightarrow> string option \<Rightarrow> world \<Rightarrow> unit outcome" where
  "u_associate_floating_ip E ctx floating_address fixed_address interface instance_uuid =
     (let interface = or_interface E interface in
      bindE (db_floating_ip_fixed_ip_associate E ctx floating_address fixed_address (self_host E))
        (\<lambda>fixed.
           case fixed of
             None \<Rightarrow> returnE ()
           | Some (fx, nw) \<Rightarrow>
               thenE
                 (try_except
                    (l3driver E (AddFloatingIp floating_address fixed_address interface nw))
                    (\<lambda>e. case e of
                            ProcessExecutionError msg \<Rightarrow>
                              thenE (bindE (db_floating_ip_disassociate E ctx floating_address)
                                       (\<lambda>_. returnE ()))
                                (if str_in ''Cannot find device'' msg then
                                   thenE (log (ErrInterfaceNotFound interface))
                                     (raise (NoFloatingIpInterface interface))
                                 else raise e)
                          | _ \<Rightarrow> raise e))
                 (notify E EvAssociate
                    (BindingPayload (project_id ctx) instance_uuid floating_address))))"

definition u_disassociate_floating_ip :: "env \<Rightarrow> req_context \<Rightarrow> string \<Rightarrow> string option \<Rightarrow> string option \<Rightarrow> world \<Rightarrow> unit outcome" where
  "u_disassociate_floating_ip E ctx address interface instance_uuid =
     (let interface = or_interface E interface in
      bindE (db_floating_ip_disassociate E ctx address)
        (\<lambda>fixed.
           case fixed of
             None \<Rightarrow> returnE ()
           | Some (fx, nw) \<Rightarrow>
               thenE
                 (if truthy_str interface then
                    l3driver E (RemoveFloatingIp address (fx_address fx) interface nw)
                  else returnE ())
                 (notify E EvDisassociate
                    (BindingPayload (project_id ctx) instance_uuid address))))"

text \<open>
  Modelled from the spec: the RPC surface exposed to peer hosts (section 6;
  \<^verbatim>\<open>nova.network.rpcapi\<close> is not among the sources). The call executes the local
  binding or unbinding step on the named host and returns its result or error to the
  caller.
\<close>

definition rpc_associate_floating_ip :: "env \<Rightarrow> req_context \<Rightarrow> string \<Rightarrow> string \<Rightarrow> string option \<Rightarrow> string option \<Rightarrow> string option \<Rightarrow> world \<Rightarrow> unit outcome" where
  "rpc_associate_floating_ip E ctx floating_address fixed_address interface h instance_uuid =
     checked E (RpcAssociate floating_address fixed_address interface h instance_uuid) (\<lambda>w.
       u_associate_floating_ip (E\<lparr>self_host := h\<rparr>) ctx floating_address fixed_address interface
         instance_uuid
         (w\<lparr>rpc_log := rpc_log w @
               [RpcAssociate floating_address fixed_address interface h instance_uuid]\<rparr>))"

definition rpc_disassociate_floating_ip :: "env \<Rightarrow> req_context \<Rightarrow> string \<Rightarrow> string option \<Rightarrow> string option \<Rightarrow> string option \<Rightarrow> world \<Rightarrow> unit outcome" where
  "rpc_disassociate_floating_ip E ctx address interface h instance_uuid =
     checked E (RpcDisassociate address interface h instance_uuid) (\<lambda>w.
       u_disassociate_floating_ip (E\<lparr>self_host := h\<rparr>) ctx address interface instance_uuid
         (w\<lparr>rpc_log := rpc_log w @ [RpcDisassociate address interface h instance_uuid]\<rparr>))"

subsection \<open>Disassociation and association\<close>

text \<open>Modelled from the spec: the service group's liveness answer for a registered service.\<close>

definition service_is_up :: "service \<Rightarrow> bool" where
  "service_is_up s = sv_is_up s"

definition disassociate_floating_ip :: "env \<Rightarrow> req_context \<Rightarrow> string \<Rightarrow> bool \<Rightarrow> world \<Rightarrow> unit outcome" where
  "disassociate_floating_ip E ctx address affect_auto_assigned =
     client_exceptions
      (bindE (db_floating_ip_get_by_address E ctx address) (\<lambda>floating_ip.
        if \<not> affect_auto_assigned \<and> fl_auto_assigned floating_ip then
          raise CannotDisassociateAutoAssignedFloatingIP
        else
          thenE (floating_ip_owned_by_project E ctx floating_ip)
         (if \<not> truthy_id (fl_fixed_ip_id floating_ip) then
            raise (FloatingIpNotAssociated (fl_address floating_ip))
          else
            bindE (db_fixed_ip_get E ctx (fl_fixed_ip_id floating_ip) False) (\<lambda>(fixed_ip, _).
            bindE (db_network_get E (elevated ctx) (fx_network_id fixed_ip)) (\<lambda>network.
            let interface = fl_interface floating_ip in
            bindE
              (if nw_multi_host network then
                 bindE (db_instance_get_by_uuid E ctx (fx_instance_uuid fixed_ip)) (\<lambda>instance.
                 bindE (db_service_get_by_host_and_topic E (elevated ctx) (in_host instance)
                          (network_topic E)) (\<lambda>service.
                   if (case service of Some s \<Rightarrow> service_is_up s | None \<Rightarrow> False) then
                     returnE (in_host instance, interface)
                   else
                     returnE (self_host E, None)))
               else returnE (nw_host network, interface))
              (\<lambda>(host, interface).
                 if host = self_host E then
                   u_disassociate_floating_ip E ctx address interface (fx_instance_uuid fixed_ip)
                 else
                   rpc_disassociate_floating_ip E ctx address interface host
                     (fx_instance_uuid fixed_ip)))))))"

definition associate_floating_ip :: "env \<Rightarrow> req_context \<Rightarrow> string \<Rightarrow> string \<Rightarrow> bool \<Rightarrow> world \<Rightarrow> string option outcome" where
  "associate_floating_ip E ctx floating_address fixed_address affect_auto_assigned =
     client_exceptions
      (bindE (db_floating_ip_get_by_address E ctx floating_address) (\<lambda>floating_ip.
        if \<not> affect_auto_assigned \<and> fl_auto_assigned floating_ip then returnE None
        else
          thenE (floating_ip_owned_by_project E ctx floating_ip)
          (let send = (\<lambda>orig_instance_uuid.
                 bindE (db_fixed_ip_get_by_address E ctx fixed_address) (\<lambda>fixed_ip.
                 bindE (db_network_get E (elevated ctx) (fx_network_id fixed_ip)) (\<lambda>network.
                 bindE
                   (if nw_multi_host network then
                      bindE (db_instance_get_by_uuid E ctx (fx_instance_uuid fixed_ip))
                        (\<lambda>instance. returnE (in_host instance))
                    else returnE (nw_host network))
                   (\<lambda>host.
                      let interface = fl_interface floating_ip in
                      thenE
                        (if host = self_host E then
                           u_associate_floating_ip E ctx floating_address fixed_address interface
                             (fx_instance_uuid fixed_ip)
                         else
                           rpc_associate_floating_ip E ctx floating_address fixed_address
                             interface host (fx_instance_uuid fixed_ip))
                        (returnE orig_instance_uuid)))))
           in
           if truthy_id (fl_fixed_ip_id floating_ip) then
             bindE (db_fixed_ip_get E ctx (fl_fixed_ip_id floating_ip) False) (\<lambda>(fixed_ip, _).
               if fx_address fixed_ip = fixed_address then returnE None
               else
                 thenE (disassociate_floating_ip E ctx floating_address False)
                   (send (fx_instance_uuid fixed_ip)))
           else send None)))"

subsection \<open>Migration\<close>

definition is_stale_floating_ip_address :: "env \<Rightarrow> req_context \<Rightarrow> floating_ip \<Rightarrow> world \<Rightarrow> bool outcome" where
  "is_stale_floating_ip_address E ctx floating_ip =
     try_except
       (thenE (floating_ip_owned_by_project E ctx floating_ip)
          (returnE (if truthy_id (fl_fixed_ip_id floating_ip) then False else True)))
       (\<lambda>e. if e = NotAuthorized then returnE True else raise e)"

text \<open>The body of the loop over the addresses, start phase.\<close>

definition migrate_start_address :: "env \<Rightarrow> req_context \<Rightarrow> string \<Rightarrow> string \<Rightarrow> world \<Rightarrow> unit outcome" where
  "migrate_start_address E ctx instance_uuid address =
     bindE (db_floating_ip_get_by_address E ctx address) (\<lambda>floating_ip.
     bindE (is_stale_floating_ip_address E ctx floating_ip) (\<lambda>stale.
       if stale then log (WarnWillNotMigrate address instance_uuid)
       else
         let interface = or_interface E (fl_interface floating_ip) in
         bindE (db_fixed_ip_get E ctx (fl_fixed_ip_id floating_ip) True) (\<lambda>(fixed_ip, nw).
         thenE (l3driver E (RemoveFloatingIp (fl_address floating_ip) (fx_address fixed_ip)
                              interface nw))
        (thenE (l3driver E (CleanConntrack (fx_address fixed_ip)))
               (db_floating_ip_update E ctx (fl_address floating_ip) None)))))"

definition migrate_instance_start :: "env \<Rightarrow> req_context \<Rightarrow> string \<Rightarrow> string list \<Rightarrow> string option \<Rightarrow> string option \<Rightarrow> world \<Rightarrow> unit outcome" where
  "migrate_instance_start E ctx instance_uuid floating_addresses source dest =
     (if floating_addresses = [] \<or> (truthy_str source \<and> source = dest) then returnE ()
      else
        thenE (log (InfoMigrationStart instance_uuid))
          (for_each floating_addresses (migrate_start_address E ctx instance_uuid)))"

text \<open>The body of the loop over the addresses, finish phase.\<close>

definition migrate_finish_address :: "env \<Rightarrow> req_context \<Rightarrow> string \<Rightarrow> string option \<Rightarrow> string \<Rightarrow> world \<Rightarrow> unit outcome" where
  "migrate_finish_address E ctx instance_uuid dest address =
     bindE (db_floating_ip_get_by_address E ctx address) (\<lambda>floating_ip.
     bindE (is_stale_floating_ip_address E ctx floating_ip) (\<lambda>stale.
       if stale then log (WarnWillNotSetup address instance_uuid)
       else
         thenE (db_floating_ip_update E ctx (fl_address floating_ip) dest)
        (let interface = or_interface E (fl_interface floating_ip) in
         bindE (db_fixed_ip_get E ctx (fl_fixed_ip_id floating_ip) True) (\<lambda>(fixed_ip, nw).
           l3driver E (AddFloatingIp (fl_address floating_ip) (fx_address fixed_ip)
                         interface nw)))))"

definition migrate_instance_finish :: "env \<Rightarrow> req_context \<Rightarrow> string \<Rightarrow> string list \<Rightarrow> string option \<Rightarrow> string option \<Rightarrow> string option \<Rightarrow> world \<Rightarrow> unit outcome" where
  "migrate_instance_finish E ctx instance_uuid floating_addresses host source dest =
     (let dest = (if truthy_str host \<and> \<not> truthy_str dest then host else dest) in
      if floating_addresses = [] \<or> (truthy_str source \<and> source = dest) then returnE ()
      else
        thenE (log (InfoMigrationFinish instance_uuid))
          (for_each floating_addresses (migrate_finish_address E ctx instance_uuid dest)))"

text \<open>
  The specification's \<open>isStale\<close>, in its own words: the ownership check fails or the
  record is unbound. It is compared with \<open>is_stale_floating_ip_address\<close> below.
\<close>

definition stale :: "req_context \<Rightarrow> floating_ip \<Rightarrow> bool" where
  "stale ctx r =
     ((\<not> is_admin ctx \<and> fl_project_id r \<noteq> project_id ctx) \<or> \<not> truthy_id (fl_fixed_ip_id r))"

text \<open>The floating address an L3 command adds a forwarding rule for, if it adds one.\<close>

fun added_address :: "l3_call \<Rightarrow> string option" where
  "added_address (AddFloatingIp fa _ _ _) = Some fa"
| "added_address _ = None"

text \<open>
  Vocabulary of the migration properties. An address is stale in a world when its record is
  stale; it is resolvable when it has a record and, unless that record is stale, the fixed
  IP it is bound to is in the store (the data model's invariant that a bound fixed-ip id
  names a valid FixedIP record).
\<close>

definition stale_address :: "req_context \<Rightarrow> world \<Rightarrow> string \<Rightarrow> bool" where
  "stale_address ctx w a =
     (case find_floating a (floating_ips w) of Some r \<Rightarrow> stale ctx r | None \<Rightarrow> False)"

definition resolvable :: "req_context \<Rightarrow> world \<Rightarrow> string \<Rightarrow> bool" where
  "resolvable ctx w a =
     (case find_floating a (floating_ips w) of
        None \<Rightarrow> False
      | Some r \<Rightarrow> stale ctx r \<or> find (\<lambda>x. Some (fx_id x) = fl_fixed_ip_id r) (fixed_ips w) \<noteq> None)"

text \<open>
  What a pass of a migration loop over the addresses \<open>as\<close> does to the record found under
  an address: the host tag becomes \<open>h\<close> when the address is in the list and the record is
  not stale. \<open>step_ok\<close> collects the effect of such a pass on the world: it returns,
  leaves fixed IPs and networks alone, retags the records, issues L3 commands whose added
  addresses are \<open>tg\<close> of each address that is not stale, and logs \<open>warn\<close> for each stale one.
\<close>

definition retag :: "req_context \<Rightarrow> string option \<Rightarrow> bool \<Rightarrow> floating_ip \<Rightarrow> floating_ip" where
  "retag ctx h hit x = (if hit \<and> \<not> stale ctx x then x\<lparr>fl_host := h\<rparr> else x)"

definition step_ok :: "req_context \<Rightarrow> string option \<Rightarrow> (string \<Rightarrow> string option list) \<Rightarrow> (string \<Rightarrow> log_line) \<Rightarrow>
    string list \<Rightarrow> world \<Rightarrow> unit outcome \<Rightarrow> bool" where
  "step_ok ctx h tg warn as w out =
     (\<exists>w' calls ls. out = (Inr (), w')
        \<and> fixed_ips w' = fixed_ips w \<and> networks w' = networks w
        \<and> (\<forall>b. find_floating b (floating_ips w') =
               map_option (retag ctx h (b \<in> set as)) (find_floating b (floating_ips w)))
        \<and> l3_log w' = l3_log w @ calls
        \<and> map (added_address \<circ> snd) calls
            = concat (map tg (filter (\<lambda>a. \<not> stale_address ctx w a) as))
        \<and> log_lines w' = log_lines w @ ls
        \<and> (\<forall>a \<in> set as. stale_address ctx w a \<longrightarrow> warn a \<in> set ls))"

subsection \<open>A concrete deployment, used to run the definitions\<close>

text \<open>
  Host \<open>hostA\<close> runs the manager. Network 1 is single-host and served by \<open>hostA\<close>;
  network 2 is multi-host, its instance runs on \<open>hostB\<close>, whose network service is
  registered and down. Projects \<open>P\<close> and \<open>Q\<close> own floating IPs; one address is free.
\<close>

definition net1 :: network where
  "net1 = \<lparr>nw_id = 1, nw_multi_host = False, nw_host = Some ''hostA''\<rparr>"

definition net2 :: network where
  "net2 = \<lparr>nw_id = 2, nw_multi_host = True, nw_host = None\<rparr>"

definition fixed1 :: fixed_ip where
  "fixed1 = \<lparr>fx_id = 1, fx_address = ''10.0.0.5'', fx_instance_uuid = Some ''inst1'', fx_network_id = 1\<rparr>"

definition fixed2 :: fixed_ip where
  "fixed2 = \<lparr>fx_id = 2, fx_address = ''10.0.0.6'', fx_instance_uuid = Some ''inst2'', fx_network_id = 2\<rparr>"

definition fixed3 :: fixed_ip where
  "fixed3 = \<lparr>fx_id = 3, fx_address = ''10.0.0.7'', fx_instance_uuid = Some ''inst1'', fx_network_id = 1\<rparr>"

definition float_bound :: floating_ip where
  "float_bound = \<lparr>fl_address = ''172.24.4.1'', fl_pool = ''nova'', fl_project_id = Some ''P'',
     fl_fixed_ip_id = Some 1, fl_auto_assigned = False, fl_host = Some ''hostA'',
     fl_interface = None\<rparr>"

definition float_multi :: floating_ip where
  "float_multi = \<lparr>fl_address = ''172.24.4.2'', fl_pool = ''nova'', fl_project_id = Some ''P'',
     fl_fixed_ip_id = Some 2, fl_auto_assigned = False, fl_host = Some ''hostB'',
     fl_interface = None\<rparr>"

definition float_auto :: floating_ip where
  "float_auto = \<lparr>fl_address = ''172.24.4.3'', fl_pool = ''nova'', fl_project_id = Some ''P'',
     fl_fixed_ip_id = Some 3, fl_auto_assigned = True, fl_host = Some ''hostA'',
     fl_interface = None\<rparr>"

definition float_free :: floating_ip where
  "float_free = \<lparr>fl_address = ''172.24.4.4'', fl_pool = ''nova'', fl_project_id = None,
     fl_fixed_ip_id = None, fl_auto_assigned = False, fl_host = None, fl_interface = None\<rparr>"

definition float_q :: floating_ip where
  "float_q = \<lparr>fl_address = ''172.24.4.5'', fl_pool = ''nova'', fl_project_id = Some ''Q'',
     fl_fixed_ip_id = None, fl_auto_assigned = False, fl_host = None, fl_interface = None\<rparr>"

definition float_q_auto :: floating_ip where
  "float_q_auto = \<lparr>fl_address = ''172.24.4.6'', fl_pool = ''nova'', fl_project_id = Some ''Q'',
     fl_fixed_ip_id = None, fl_auto_assigned = True, fl_host = None, fl_interface = None\<rparr>"

definition world0 :: world where
  "world0 = \<lparr>floating_ips = [float_bound, float_multi, float_auto, float_free, float_q, float_q_auto],
     fixed_ips = [fixed1, fixed2, fixed3],
     networks = [net1, net2],
     instances = [\<lparr>in_uuid = ''inst1'', in_host = Some ''hostA''\<rparr>,
                  \<lparr>in_uuid = ''inst2'', in_host = Some ''hostB''\<rparr>],
     services = [\<lparr>sv_host = Some ''hostB'', sv_topic = ''network'', sv_is_up = False\<rparr>],
     dnsdomains = [],
     floating_dns = \<lparr>dns_domains = [], dns_entries = []\<rparr>,
     instance_dns = \<lparr>dns_domains = [], dns_entries = []\<rparr>,
     quota_log = [], l3_log = [], notifications = [], rpc_log = [], log_lines = []\<rparr>"

text \<open>An environment in which no collaborator fails; \<open>public_interface\<close> is left empty.\<close>

definition quiet_env :: env where
  "quiet_env = \<lparr>self_host = Some ''hostA'', public_interface = [],
     default_floating_pool = ''nova'', network_topic = ''network'',
     fault = (\<lambda>w c. None),
     reserve_answer = (\<lambda>w ctx delta. Inr [''r1'']),
     l3_fault = (\<lambda>w c. None)\<rparr>"

definition ctx_p :: req_context where
  "ctx_p = \<lparr>is_admin = False, project_id = Some ''P''\<rparr>"

definition ctx_q :: req_context where
  "ctx_q = \<lparr>is_admin = False, project_id = Some ''Q''\<rparr>"

text \<open>A caller that is not an admin and has no project.\<close>

definition ctx_none :: req_context where
  "ctx_none = \<lparr>is_admin = False, project_id = None\<rparr>"


text \<open>The store's release of one address fails; every other call succeeds.\<close>

definition release_fails_env :: env where
  "release_fails_env = quiet_env\<lparr>fault :=
     (\<lambda>w c. if c = DbFloatingIpDeallocate ''172.24.4.5''
            then Some (OtherError ''store failure'') else None)\<rparr>"

text \<open>\<^verbatim>\<open>CONF.public_interface\<close> is set, to \<open>eth0\<close>.\<close>

definition eth0_env :: env where
  "eth0_env = quiet_env\<lparr>public_interface := ''eth0''\<rparr>"

text \<open>The L3 driver fails: the device is missing, or some other command error.\<close>

definition no_device_env :: env where
  "no_device_env = quiet_env\<lparr>l3_fault :=
     (\<lambda>w c. Some (ProcessExecutionError ''Cannot find device eth9''))\<rparr>"

definition iptables_fails_env :: env where
  "iptables_fails_env = quiet_env\<lparr>l3_fault :=
     (\<lambda>w c. Some (ProcessExecutionError ''iptables: resource busy''))\<rparr>"

text \<open>The L3 driver fails and the store's unbind then fails as well.\<close>

definition undo_fails_env :: env where
  "undo_fails_env = iptables_fails_env\<lparr>fault :=
     (\<lambda>w c. if c = DbFloatingIpDisassociate ''172.24.4.5''
            then Some (OtherError ''store down'') else None)\<rparr>"

text \<open>The L3 driver raises an exception that is not a process-execution error.\<close>

definition driver_crashes_env :: env where
  "driver_crashes_env = quiet_env\<lparr>l3_fault := (\<lambda>w c. Some (OtherError ''driver crashed''))\<rparr>"

text \<open>Address lists for the migration: one with an address the store does not know, one
  with an address twice.\<close>

definition unknown_first :: "string list" where
  "unknown_first = [''172.24.4.99'', ''172.24.4.1'']"

definition listed_twice :: "string list" where
  "listed_twice = [''172.24.4.1'', ''172.24.4.1'']"

text \<open>A migration of instance \<open>inst1\<close> from \<open>hostA\<close> to \<open>hostB\<close>, as project \<open>P\<close>.\<close>

definition moved_addresses :: "string list" where
  "moved_addresses = [''172.24.4.1'', ''172.24.4.5'']"

definition world_started :: world where
  "world_started = snd (migrate_instance_start quiet_env ctx_p ''inst1'' moved_addresses
     (Some ''hostA'') (Some ''hostB'') world0)"

definition world_finished :: world where
  "world_finished = snd (migrate_instance_finish quiet_env ctx_p ''inst1'' moved_addresses None
     (Some ''hostA'') (Some ''hostB'') world_started)"

section \<open>Properties\<close>

lemmas monad_defs = bindE_def thenE_def returnE_def raise_def checked_def try_except_def
  log_def client_exceptions_def save_and_reraise_exception_def

lemmas deployment_defs = world0_def quiet_env_def ctx_p_def ctx_q_def ctx_none_def float_bound_def
  float_multi_def float_auto_def float_free_def float_q_def float_q_auto_def
  fixed1_def fixed2_def fixed3_def net1_def net2_def

lemmas db_defs = db_floating_ip_get_by_address_def find_floating_def db_fixed_ip_get_def
  db_network_get_def db_instance_get_by_uuid_def db_service_get_by_host_and_topic_def
  db_floating_ip_disassociate_def db_floating_ip_fixed_ip_associate_def
  db_floating_ip_update_def db_floating_ip_deallocate_def db_floating_ip_allocate_address_def
  db_fixed_ip_get_by_address_def update_floating_def join_network_def

subsection \<open>Quota-exceeded allocation\<close>

text \<open>
  C2. When the quota reservation of \<open>allocate_floating_ip\<close> (taken because the address is
  not auto-assigned) raises \<open>OverQuota\<close>, the call raises \<open>FloatingIpLimitExceeded\<close>; the
  world it leaves differs from the one it started in only by the warning logged, so the
  table of floating IPs is untouched and no address became allocated.
\<close>

theorem allocate_over_quota:
  assumes "reserve_answer E w ctx 1 = Inl OverQuota"
  shows "allocate_floating_ip E ctx project False pool w =
           (Inl FloatingIpLimitExceeded,
            w\<lparr>log_lines := log_lines w @ [WarnQuotaExceeded (project_id ctx)]\<rparr>)
         \<and> floating_ips (snd (allocate_floating_ip E ctx project False pool w)) = floating_ips w"
  using assms
  by (simp add: allocate_floating_ip_def quotas_reserve_def monad_defs Let_def)

theorem allocate_over_quota_witness:
  "allocate_floating_ip (quiet_env\<lparr>reserve_answer := (\<lambda>w c d. Inl OverQuota)\<rparr>) ctx_p ''P'' False None world0
     = (Inl FloatingIpLimitExceeded, world0\<lparr>log_lines := [WarnQuotaExceeded (Some ''P'')]\<rparr>)"
proof -
  have h: "reserve_answer (quiet_env\<lparr>reserve_answer := (\<lambda>w c d. Inl OverQuota)\<rparr>) world0 ctx_p 1 = Inl OverQuota"
    by simp
  have l: "log_lines world0 = []" and p: "project_id ctx_p = Some ''P''"
    by (simp_all add: world0_def ctx_p_def)
  show ?thesis
    using allocate_over_quota [OF h, of "''P''" None] by (simp add: l p)
qed

subsection \<open>Association of an address that is already bound\<close>

text \<open>
  C4. \<open>associate_floating_ip\<close> on a floating IP that is already bound to the fixed address
  asked for (the record is fetched, the auto-assigned rule does not skip it, the caller
  passes the ownership check, and the bound fixed IP carries that address) returns no
  previous instance id and leaves the world exactly as it was: no store write, no driver
  command, no RPC, no notification.
\<close>

theorem associate_same_pair_noop:
  assumes "db_floating_ip_get_by_address E ctx floating_address w = (Inr floating_ip, w)"
    and "affect_auto_assigned \<or> \<not> fl_auto_assigned floating_ip"
    and "is_admin ctx \<or> fl_project_id floating_ip = project_id ctx"
    and "truthy_id (fl_fixed_ip_id floating_ip)"
    and "db_fixed_ip_get E ctx (fl_fixed_ip_id floating_ip) False w = (Inr (fixed_ip, nw), w)"
    and "fx_address fixed_ip = fixed_address"
  shows "associate_floating_ip E ctx floating_address fixed_address affect_auto_assigned w =
           (Inr None, w)"
  using assms
  by (auto simp add: associate_floating_ip_def floating_ip_owned_by_project_def monad_defs Let_def)

theorem associate_same_pair_noop_witness:
  "associate_floating_ip quiet_env ctx_p ''172.24.4.1'' ''10.0.0.5'' False world0 = (Inr None, world0)"
proof -
  have g: "db_floating_ip_get_by_address quiet_env ctx_p ''172.24.4.1'' world0 = (Inr float_bound, world0)"
    by (simp add: db_defs checked_def deployment_defs)
  have a: "False \<or> \<not> fl_auto_assigned float_bound"
    and o: "is_admin ctx_p \<or> fl_project_id float_bound = project_id ctx_p"
    and t: "truthy_id (fl_fixed_ip_id float_bound)"
    and x: "fx_address fixed1 = ''10.0.0.5''"
    by (simp_all add: float_bound_def ctx_p_def truthy_id_def fixed1_def)
  have f: "db_fixed_ip_get quiet_env ctx_p (fl_fixed_ip_id float_bound) False world0
             = (Inr (fixed1, None), world0)"
    by (simp add: db_defs checked_def deployment_defs)
  show ?thesis by (rule associate_same_pair_noop [OF g a o t f x])
qed

text \<open>
  The two calls in a row, run on the deployment: project \<open>Q\<close> associates its unbound
  address with \<open>10.0.0.5\<close> (single-host network served by this host). The first call
  binds and issues one \<open>add_floating_ip\<close>; the second changes nothing.
\<close>

lemma associate_twice_example:
  "fst (associate_floating_ip quiet_env ctx_q ''172.24.4.5'' ''10.0.0.5'' False world0) = Inr None
   \<and> l3_log (snd (associate_floating_ip quiet_env ctx_q ''172.24.4.5'' ''10.0.0.5'' False world0))
       = [(Some ''hostA'', AddFloatingIp ''172.24.4.5'' ''10.0.0.5'' None (Some net1))]
   \<and> associate_floating_ip quiet_env ctx_q ''172.24.4.5'' ''10.0.0.5'' False
        (snd (associate_floating_ip quiet_env ctx_q ''172.24.4.5'' ''10.0.0.5'' False world0))
       = (Inr None, snd (associate_floating_ip quiet_env ctx_q ''172.24.4.5'' ''10.0.0.5'' False world0))"
proof -
  let ?w1 = "world0\<lparr>floating_ips := [float_bound, float_multi, float_auto, float_free,
        float_q\<lparr>fl_fixed_ip_id := Some 1, fl_host := Some ''hostA''\<rparr>, float_q_auto],
      l3_log := [(Some ''hostA'', AddFloatingIp ''172.24.4.5'' ''10.0.0.5'' None (Some net1))],
      notifications := [(EvAssociate, BindingPayload (Some ''Q'') (Some ''inst1'') ''172.24.4.5'')]\<rparr>"
  have first: "associate_floating_ip quiet_env ctx_q ''172.24.4.5'' ''10.0.0.5'' False world0
      = (Inr None, ?w1)"
    by (simp add: associate_floating_ip_def floating_ip_owned_by_project_def
        u_associate_floating_ip_def or_interface_def l3driver_def elevated_def
        notify_def truthy_id_def db_defs monad_defs deployment_defs)
  have second: "associate_floating_ip quiet_env ctx_q ''172.24.4.5'' ''10.0.0.5'' False ?w1
      = (Inr None, ?w1)"
    by (simp add: associate_floating_ip_def floating_ip_owned_by_project_def
        truthy_id_def db_defs monad_defs deployment_defs)
  show ?thesis unfolding first fst_conv snd_conv using second by simp
qed

text \<open>
  C10, as the code has it. The floating IP is auto-assigned and bound to a fixed address
  other than the one asked for. With \<open>affect_auto_assigned\<close> true and a caller that passes
  the ownership check, \<open>associate_floating_ip\<close> calls \<open>disassociate_floating_ip\<close> without
  the override, so the call raises \<open>CannotDisassociateAutoAssignedFloatingIP\<close> and nothing
  is rebound: the world is left as it was. With \<open>affect_auto_assigned\<close> true and a caller
  that fails the ownership check the call raises \<open>NotAuthorized\<close>. With
  \<open>affect_auto_assigned\<close> false the auto-assigned rule returns silently before any of
  this.
\<close>

theorem associate_rebind_auto_assigned_raises:
  assumes "db_floating_ip_get_by_address E ctx floating_address w = (Inr floating_ip, w)"
    and "fl_auto_assigned floating_ip"
    and "truthy_id (fl_fixed_ip_id floating_ip)"
    and "db_fixed_ip_get E ctx (fl_fixed_ip_id floating_ip) False w = (Inr (fixed_ip, nw), w)"
    and "fx_address fixed_ip \<noteq> fixed_address"
  shows "(if is_admin ctx \<or> fl_project_id floating_ip = project_id ctx then
            associate_floating_ip E ctx floating_address fixed_address True w =
              (Inl CannotDisassociateAutoAssignedFloatingIP, w)
          else
            fst (associate_floating_ip E ctx floating_address fixed_address True w)
              = Inl NotAuthorized)
       \<and> associate_floating_ip E ctx floating_address fixed_address False w = (Inr None, w)"
  using assms
  by (auto simp add: associate_floating_ip_def disassociate_floating_ip_def
      floating_ip_owned_by_project_def monad_defs Let_def)

theorem associate_rebind_auto_assigned_raises_witness:
  "associate_floating_ip quiet_env ctx_p ''172.24.4.3'' ''10.0.0.5'' True world0
     = (Inl CannotDisassociateAutoAssignedFloatingIP, world0)"
proof -
  have g: "db_floating_ip_get_by_address quiet_env ctx_p ''172.24.4.3'' world0 = (Inr float_auto, world0)"
    by (simp add: db_defs checked_def deployment_defs)
  have a: "fl_auto_assigned float_auto"
    and o: "is_admin ctx_p \<or> fl_project_id float_auto = project_id ctx_p"
    and t: "truthy_id (fl_fixed_ip_id float_auto)"
    and x: "fx_address fixed3 \<noteq> ''10.0.0.5''"
    by (simp_all add: float_auto_def ctx_p_def truthy_id_def fixed3_def)
  have f: "db_fixed_ip_get quiet_env ctx_p (fl_fixed_ip_id float_auto) False world0
             = (Inr (fixed3, None), world0)"
    by (simp add: db_defs checked_def deployment_defs)
  show ?thesis
    using associate_rebind_auto_assigned_raises [OF g a t f x] o by simp
qed

text \<open>
  C10 as written fails where the override is not passed or the caller does not own the
  address: on the auto-assigned address of project \<open>P\<close>, bound to \<open>10.0.0.7\<close>, associate
  with \<open>10.0.0.5\<close> returns silently for \<open>P\<close>'s caller without the override, and raises
  \<open>NotAuthorized\<close> for \<open>Q\<close>'s caller with it.
\<close>

theorem associate_rebind_auto_assigned_other_outcomes:
  "fl_auto_assigned float_auto \<and> fl_fixed_ip_id float_auto = Some (fx_id fixed3)
   \<and> fx_address fixed3 \<noteq> ''10.0.0.5''
   \<and> associate_floating_ip quiet_env ctx_p ''172.24.4.3'' ''10.0.0.5'' False world0
       = (Inr None, world0)
   \<and> fst (associate_floating_ip quiet_env ctx_q ''172.24.4.3'' ''10.0.0.5'' True world0)
       = Inl NotAuthorized"
  by (simp add: associate_floating_ip_def floating_ip_owned_by_project_def
      db_defs monad_defs deployment_defs)

subsection \<open>Ownership\<close>

text \<open>
  C5, as the code has it. For a caller that is not an admin and a record whose owning
  project differs from the caller's project (the record is owned by another project, or it
  is unallocated and the caller has a project), the ownership check raises
  \<open>NotAuthorized\<close>. The test is \<^verbatim>\<open>floating_ip['project_id'] != context.project_id\<close>:
  a caller without a project passes it on an unallocated record.
  \<open>deallocate_floating_ip\<close>, \<open>associate_floating_ip\<close> and \<open>disassociate_floating_ip\<close>
  on such a record raise \<open>NotAuthorized\<close> when the auto-assigned rule does not apply
  (the record is not auto-assigned, or \<open>affect_auto_assigned\<close> is true). The auto-assigned
  rule comes first: on an auto-assigned record without the override, deallocate and
  associate return silently and disassociate raises
  \<open>CannotDisassociateAutoAssignedFloatingIP\<close>, whoever owns the record.
\<close>

theorem not_owned_not_authorized:
  assumes "\<not> is_admin ctx" and "fl_project_id floating_ip \<noteq> project_id ctx"
  shows "fst (floating_ip_owned_by_project E ctx floating_ip w) = Inl NotAuthorized
    \<and> (db_floating_ip_get_by_address E ctx address w = (Inr floating_ip, w) \<longrightarrow>
         (if affect_auto_assigned \<or> \<not> fl_auto_assigned floating_ip then
            fst (deallocate_floating_ip E ctx address affect_auto_assigned w) = Inl NotAuthorized
          \<and> fst (associate_floating_ip E ctx address fixed_address affect_auto_assigned w)
              = Inl NotAuthorized
          \<and> fst (disassociate_floating_ip E ctx address affect_auto_assigned w) = Inl NotAuthorized
          else
            deallocate_floating_ip E ctx address affect_auto_assigned w = (Inr (), w)
          \<and> associate_floating_ip E ctx address fixed_address affect_auto_assigned w = (Inr None, w)
          \<and> disassociate_floating_ip E ctx address affect_auto_assigned w
              = (Inl CannotDisassociateAutoAssignedFloatingIP, w)))"
  using assms
  by (auto simp add: associate_floating_ip_def disassociate_floating_ip_def
      deallocate_floating_ip_def floating_ip_owned_by_project_def monad_defs Let_def)

theorem not_owned_not_authorized_witness:
  "fst (floating_ip_owned_by_project quiet_env ctx_p float_q world0) = Inl NotAuthorized
   \<and> fst (floating_ip_owned_by_project quiet_env ctx_p float_free world0) = Inl NotAuthorized
   \<and> fst (deallocate_floating_ip quiet_env ctx_p ''172.24.4.5'' False world0) = Inl NotAuthorized
   \<and> fst (associate_floating_ip quiet_env ctx_p ''172.24.4.5'' ''10.0.0.5'' False world0) = Inl NotAuthorized
   \<and> fst (disassociate_floating_ip quiet_env ctx_p ''172.24.4.5'' False world0) = Inl NotAuthorized"
proof -
  have a: "\<not> is_admin ctx_p" and o: "fl_project_id float_q \<noteq> project_id ctx_p"
    and u: "fl_project_id float_free \<noteq> project_id ctx_p"
    and n: "\<not> fl_auto_assigned float_q"
    by (simp_all add: ctx_p_def float_q_def float_free_def)
  have g: "db_floating_ip_get_by_address quiet_env ctx_p ''172.24.4.5'' world0 = (Inr float_q, world0)"
    by (simp add: db_defs checked_def deployment_defs)
  show ?thesis
    using not_owned_not_authorized [OF a o, of quiet_env world0 "''172.24.4.5''" False "''10.0.0.5''"]
      not_owned_not_authorized [OF a u, of quiet_env world0 "''172.24.4.4''" False "''10.0.0.5''"] g n
    by simp
qed

text \<open>
  C5 as written fails in two places. On an auto-assigned record: project \<open>P\<close>'s caller
  deallocates the auto-assigned address of project \<open>Q\<close> without the override and gets a
  silent success, not \<open>NotAuthorized\<close>. On an unallocated record: a caller that is not
  an admin and has no project passes the ownership check.
\<close>

theorem deallocate_foreign_auto_assigned_silent:
  "\<not> is_admin ctx_p \<and> fl_project_id float_q_auto \<noteq> project_id ctx_p
   \<and> find_floating ''172.24.4.6'' (floating_ips world0) = Some float_q_auto
   \<and> deallocate_floating_ip quiet_env ctx_p ''172.24.4.6'' False world0 = (Inr (), world0)
   \<and> \<not> is_admin ctx_none \<and> fl_project_id float_free = None
   \<and> floating_ip_owned_by_project quiet_env ctx_none float_free world0 = (Inr (), world0)"
  by (simp add: deallocate_floating_ip_def floating_ip_owned_by_project_def
      db_defs monad_defs deployment_defs)

subsection \<open>The auto-assigned rule of disassociate\<close>

text \<open>
  C7, as the code has it. \<open>disassociate_floating_ip\<close> without the override on an
  auto-assigned floating IP does not return silently the way deallocate and associate do:
  it raises \<open>CannotDisassociateAutoAssignedFloatingIP\<close>. No state is mutated: the world
  is left as it was.
\<close>

theorem disassociate_auto_assigned_raises:
  assumes "db_floating_ip_get_by_address E ctx address w = (Inr floating_ip, w)"
    and "fl_auto_assigned floating_ip"
  shows "disassociate_floating_ip E ctx address False w =
           (Inl CannotDisassociateAutoAssignedFloatingIP, w)"
  using assms by (simp add: disassociate_floating_ip_def monad_defs)

theorem disassociate_auto_assigned_raises_witness:
  "disassociate_floating_ip quiet_env ctx_q ''172.24.4.6'' False world0
     = (Inl CannotDisassociateAutoAssignedFloatingIP, world0)"
proof -
  have g: "db_floating_ip_get_by_address quiet_env ctx_q ''172.24.4.6'' world0 = (Inr float_q_auto, world0)"
    by (simp add: db_defs checked_def deployment_defs)
  have a: "fl_auto_assigned float_q_auto"
    by (simp add: float_q_auto_def)
  show ?thesis by (rule disassociate_auto_assigned_raises [OF g a])
qed

text \<open>
  C7 as written fails: on the auto-assigned address of project \<open>P\<close>, disassociate
  by \<open>P\<close>'s caller without the override raises instead of returning.
\<close>

theorem disassociate_auto_assigned_not_silent:
  "fl_auto_assigned float_auto
   \<and> find_floating ''172.24.4.3'' (floating_ips world0) = Some float_auto
   \<and> fst (disassociate_floating_ip quiet_env ctx_p ''172.24.4.3'' False world0)
       = Inl CannotDisassociateAutoAssignedFloatingIP
   \<and> fst (disassociate_floating_ip quiet_env ctx_p ''172.24.4.3'' False world0) \<noteq> Inr ()"
  by (simp add: disassociate_floating_ip_def db_defs monad_defs deployment_defs)

subsection \<open>Migration: the guard\<close>

text \<open>
  C9, as the code has it. \<open>migrate_instance_start\<close> is a no-op (the world is left as it
  was: no store access, no driver command) when the address list is empty, or when the
  source is given (not None, not empty) and equals the destination.
  \<open>migrate_instance_finish\<close> is a no-op under the same condition, its destination being
  \<open>host\<close> when \<open>host\<close> is given and \<open>dest\<close> is not. The guard reads
  \<^verbatim>\<open>source and source == dest\<close>: an absent source never makes the call a no-op.
\<close>

theorem migrate_guard_noop:
  "(floating_addresses = [] \<or> (truthy_str source \<and> source = dest) \<longrightarrow>
      migrate_instance_start E ctx instance_uuid floating_addresses source dest w = (Inr (), w))
   \<and> (floating_addresses = [] \<or>
        (truthy_str source \<and> source = (if truthy_str host \<and> \<not> truthy_str dest then host else dest)) \<longrightarrow>
      migrate_instance_finish E ctx instance_uuid floating_addresses host source dest w = (Inr (), w))"
  by (auto simp add: migrate_instance_start_def migrate_instance_finish_def returnE_def Let_def)

theorem migrate_guard_noop_witness:
  "migrate_instance_start quiet_env ctx_p ''inst1'' [''172.24.4.1''] (Some ''hostA'') (Some ''hostA'') world0
     = (Inr (), world0)
   \<and> migrate_instance_finish quiet_env ctx_p ''inst1'' [''172.24.4.1''] (Some ''hostA'') (Some ''hostA'') None world0
     = (Inr (), world0)
   \<and> migrate_instance_start quiet_env ctx_p ''inst1'' [] None None world0 = (Inr (), world0)"
  using migrate_guard_noop [of "[''172.24.4.1'']" "Some ''hostA''" "Some ''hostA''" quiet_env ctx_p "''inst1''" world0 "None"]
    migrate_guard_noop [of "[''172.24.4.1'']" "Some ''hostA''" "None" quiet_env ctx_p "''inst1''" world0 "Some ''hostA''"]
    migrate_guard_noop [of "[]" "None" "None" quiet_env ctx_p "''inst1''" world0 "None"]
  by (simp add: truthy_str_def)

text \<open>
  C9 as written fails when source and destination are both absent: the guard does
  not hold, the loop runs, and the L3 driver is told to remove the rule of the bound
  address and the store's host tag of the address is cleared.
\<close>

theorem migrate_start_absent_hosts_runs:
  "l3_log (snd (migrate_instance_start quiet_env ctx_p ''inst1'' [''172.24.4.1''] None None world0))
     = [(Some ''hostA'', RemoveFloatingIp ''172.24.4.1'' ''10.0.0.5'' None (Some net1)),
        (Some ''hostA'', CleanConntrack ''10.0.0.5'')]
   \<and> map fl_host (floating_ips (snd (migrate_instance_start quiet_env ctx_p ''inst1''
        [''172.24.4.1''] None None world0)))
     = [None, Some ''hostB'', Some ''hostA'', None, None, None]"
  by (simp add: migrate_instance_start_def migrate_start_address_def
      is_stale_floating_ip_address_def floating_ip_owned_by_project_def l3driver_def
      or_interface_def truthy_id_def truthy_str_def db_defs monad_defs deployment_defs)


subsection \<open>Migration: start then finish\<close>

lemma find_floating_address: "find_floating a tbl = Some r \<Longrightarrow> fl_address r = a"
  by (auto simp: find_floating_def find_Some_iff)

lemma find_floating_update:
  assumes "\<And>r. fl_address (f r) = fl_address r"
  shows "find_floating b (update_floating a f tbl) =
         map_option (\<lambda>r. if b = a then f r else r) (find_floating b tbl)"
  using assms by (induction tbl) (auto simp: find_floating_def update_floating_def)

lemma is_stale_eq:
  "\<exists>ls. is_stale_floating_ip_address E ctx r w = (Inr (stale ctx r), w\<lparr>log_lines := log_lines w @ ls\<rparr>)"
proof (cases "is_admin ctx \<or> fl_project_id r = project_id ctx")
  case True
  then have "is_stale_floating_ip_address E ctx r w = (Inr (stale ctx r), w\<lparr>log_lines := log_lines w @ []\<rparr>)"
    by (auto simp: is_stale_floating_ip_address_def floating_ip_owned_by_project_def stale_def monad_defs)
  then show ?thesis by blast
next
  case False
  then show ?thesis
    by (auto simp: is_stale_floating_ip_address_def floating_ip_owned_by_project_def stale_def monad_defs)
qed

lemma stale_host [simp]: "stale ctx (r\<lparr>fl_host := h\<rparr>) = stale ctx r"
  by (simp add: stale_def)

lemma retag_retag: "retag ctx h q (retag ctx h p x) = retag ctx h (p \<or> q) x"
  by (auto simp add: retag_def)

lemma stale_retag [simp]: "stale ctx (retag ctx h p x) = stale ctx x"
  by (simp add: retag_def)

lemma fixed_id_retag [simp]: "fl_fixed_ip_id (retag ctx h p x) = fl_fixed_ip_id x"
  by (simp add: retag_def)

lemma retag_False: "retag ctx h False = (\<lambda>x. x)"
  by (simp add: retag_def fun_eq_iff)

lemma retag_transfer:
  assumes "\<forall>b. find_floating b (floating_ips w') =
               map_option (retag ctx h (P b)) (find_floating b (floating_ips w))"
    and "fixed_ips w' = fixed_ips w"
  shows "stale_address ctx w' b = stale_address ctx w b"
    and "resolvable ctx w' b = resolvable ctx w b"
  using assms by (auto simp: stale_address_def resolvable_def split: option.splits)

lemma same_tables:
  assumes "floating_ips w' = floating_ips w" and "fixed_ips w' = fixed_ips w"
  shows "stale_address ctx w' b = stale_address ctx w b"
    and "resolvable ctx w' b = resolvable ctx w b"
  using assms by (auto simp add: stale_address_def resolvable_def split: option.splits)

lemma for_each_step_ok:
  assumes step: "\<And>a w. resolvable ctx w a \<Longrightarrow> step_ok ctx h tg warn [a] w (body a w)"
  shows "\<forall>a \<in> set as. resolvable ctx w a \<Longrightarrow> step_ok ctx h tg warn as w (for_each as body w)"
proof (induction as arbitrary: w)
  case Nil
  show ?case
    by (simp add: step_ok_def returnE_def retag_False option.map_ident)
next
  case (Cons a as)
  from Cons.prems have "step_ok ctx h tg warn [a] w (body a w)" by (simp add: step)
  then obtain w1 calls1 ls1 where o1: "body a w = (Inr (), w1)"
    and f1: "fixed_ips w1 = fixed_ips w" and n1: "networks w1 = networks w"
    and l1: "\<forall>b. find_floating b (floating_ips w1) =
               map_option (retag ctx h (b \<in> set [a])) (find_floating b (floating_ips w))"
    and c1: "l3_log w1 = l3_log w @ calls1"
    and t1: "map (added_address \<circ> snd) calls1
            = concat (map tg (filter (\<lambda>a. \<not> stale_address ctx w a) [a]))"
    and g1: "log_lines w1 = log_lines w @ ls1"
    and s1: "\<forall>a' \<in> set [a]. stale_address ctx w a' \<longrightarrow> warn a' \<in> set ls1"
    unfolding step_ok_def by blast
  have same: "\<And>b. stale_address ctx w1 b = stale_address ctx w b"
    "\<And>b. resolvable ctx w1 b = resolvable ctx w b"
    using retag_transfer [OF l1 f1] by auto
  from Cons.prems have "\<forall>a \<in> set as. resolvable ctx w1 a" by (simp add: same)
  then have "step_ok ctx h tg warn as w1 (for_each as body w1)" by (rule Cons.IH)
  then obtain w2 calls2 ls2 where o2: "for_each as body w1 = (Inr (), w2)"
    and f2: "fixed_ips w2 = fixed_ips w1" and n2: "networks w2 = networks w1"
    and l2: "\<forall>b. find_floating b (floating_ips w2) =
               map_option (retag ctx h (b \<in> set as)) (find_floating b (floating_ips w1))"
    and c2: "l3_log w2 = l3_log w1 @ calls2"
    and t2: "map (added_address \<circ> snd) calls2
            = concat (map tg (filter (\<lambda>a. \<not> stale_address ctx w1 a) as))"
    and g2: "log_lines w2 = log_lines w1 @ ls2"
    and s2: "\<forall>a' \<in> set as. stale_address ctx w1 a' \<longrightarrow> warn a' \<in> set ls2"
    unfolding step_ok_def by blast
  have out: "for_each (a # as) body w = (Inr (), w2)"
    by (simp add: thenE_def bindE_def o1 o2)
  have look: "\<forall>b. find_floating b (floating_ips w2) =
               map_option (retag ctx h (b \<in> set (a # as))) (find_floating b (floating_ips w))"
  proof
    fix b
    have "find_floating b (floating_ips w2) =
       map_option (retag ctx h (b \<in> set as)) (map_option (retag ctx h (b \<in> set [a]))
         (find_floating b (floating_ips w)))"
      using l1 l2 by simp
    also have "\<dots> = map_option (retag ctx h (b \<in> set (a # as))) (find_floating b (floating_ips w))"
      by (auto simp: option.map_comp comp_def retag_retag intro!: option.map_cong)
    finally show "find_floating b (floating_ips w2) =
               map_option (retag ctx h (b \<in> set (a # as))) (find_floating b (floating_ips w))" .
  qed
  have calls: "l3_log w2 = l3_log w @ (calls1 @ calls2)" by (simp add: c1 c2)
  have tags: "map (added_address \<circ> snd) (calls1 @ calls2)
            = concat (map tg (filter (\<lambda>a. \<not> stale_address ctx w a) (a # as)))"
    using t1 t2 by (simp add: same)
  have lines: "log_lines w2 = log_lines w @ (ls1 @ ls2)" by (simp add: g1 g2)
  have warns: "\<forall>a' \<in> set (a # as). stale_address ctx w a' \<longrightarrow> warn a' \<in> set (ls1 @ ls2)"
    using s1 s2 by (auto simp: same)
  have fx: "fixed_ips w2 = fixed_ips w" and nx: "networks w2 = networks w"
    by (simp_all add: f1 f2 n1 n2)
  show ?case
    unfolding step_ok_def
    using out fx nx look calls tags lines warns by blast
qed

lemma lookup_single:
  assumes "find_floating a tbl = Some r"
  shows "find_floating b (if stale ctx r then tbl else update_floating a (\<lambda>x. x\<lparr>fl_host := h\<rparr>) tbl)
     = map_option (retag ctx h (b \<in> set [a])) (find_floating b tbl)"
proof (cases "b = a")
  case True
  then show ?thesis using assms by (simp add: find_floating_update retag_def)
next
  case False
  then show ?thesis
    by (simp add: find_floating_update retag_False option.map_ident)
qed

lemma finish_address_ok:
  assumes nf: "\<forall>w c. fault E w c = None" and nl: "\<forall>w c. l3_fault E w c = None"
    and res: "resolvable ctx w a"
  shows "step_ok ctx dest (\<lambda>a. [Some a]) (\<lambda>a. WarnWillNotSetup a iu) [a] w
           (migrate_finish_address E ctx iu dest a w)"
proof -
  from res obtain r where r: "find_floating a (floating_ips w) = Some r"
    and fx: "\<not> stale ctx r \<longrightarrow> find (\<lambda>x. Some (fx_id x) = fl_fixed_ip_id r) (fixed_ips w) \<noteq> None"
    by (auto simp: resolvable_def split: option.splits)
  have sa: "stale_address ctx w a = stale ctx r" by (simp add: stale_address_def r)
  obtain ls where st: "is_stale_floating_ip_address E ctx r w
      = (Inr (stale ctx r), w\<lparr>log_lines := log_lines w @ ls\<rparr>)"
    using is_stale_eq by blast
  have get: "db_floating_ip_get_by_address E ctx a w = (Inr r, w)"
    using nf r by (simp add: db_floating_ip_get_by_address_def checked_def)
  have ad: "fl_address r = a" using r by (rule find_floating_address)
  show ?thesis
  proof (cases "stale ctx r")
    case True
    have "migrate_finish_address E ctx iu dest a w =
        (Inr (), w\<lparr>log_lines := log_lines w @ (ls @ [WarnWillNotSetup a iu])\<rparr>)"
      using get st True by (simp add: migrate_finish_address_def monad_defs)
    then show ?thesis
      unfolding step_ok_def using True sa lookup_single [OF r, of b ctx dest for b]
      by (intro exI [of _ "w\<lparr>log_lines := log_lines w @ (ls @ [WarnWillNotSetup a iu])\<rparr>"]
          exI [of _ "[]"] exI [of _ "ls @ [WarnWillNotSetup a iu]"]) simp
  next
    case False
    then obtain fx where f: "find (\<lambda>x. Some (fx_id x) = fl_fixed_ip_id r) (fixed_ips w) = Some fx"
      using fx by blast
    let ?tbl = "update_floating a (\<lambda>x. x\<lparr>fl_host := dest\<rparr>) (floating_ips w)"
    let ?c = "AddFloatingIp a (fx_address fx) (or_interface E (fl_interface r)) (join_network w fx)"
    let ?w' = "w\<lparr>log_lines := log_lines w @ ls, floating_ips := ?tbl,
                    l3_log := l3_log w @ [(self_host E, ?c)]\<rparr>"
    have "migrate_finish_address E ctx iu dest a w = (Inr (), ?w')"
      using get st False f nf nl r ad
      by (simp add: migrate_finish_address_def monad_defs db_floating_ip_update_def
          db_fixed_ip_get_def l3driver_def join_network_def Let_def)
    then show ?thesis
      unfolding step_ok_def using False sa lookup_single [OF r, of b ctx dest for b]
      by (intro exI [of _ ?w'] exI [of _ "[(self_host E, ?c)]"] exI [of _ ls]) simp
  qed
qed

lemma start_address_ok:
  assumes nf: "\<forall>w c. fault E w c = None" and nl: "\<forall>w c. l3_fault E w c = None"
    and res: "resolvable ctx w a"
  shows "step_ok ctx None (\<lambda>a. [None, None]) (\<lambda>a. WarnWillNotMigrate a iu) [a] w
           (migrate_start_address E ctx iu a w)"
proof -
  from res obtain r where r: "find_floating a (floating_ips w) = Some r"
    and fx: "\<not> stale ctx r \<longrightarrow> find (\<lambda>x. Some (fx_id x) = fl_fixed_ip_id r) (fixed_ips w) \<noteq> None"
    by (auto simp: resolvable_def split: option.splits)
  have sa: "stale_address ctx w a = stale ctx r" by (simp add: stale_address_def r)
  obtain ls where st: "is_stale_floating_ip_address E ctx r w
      = (Inr (stale ctx r), w\<lparr>log_lines := log_lines w @ ls\<rparr>)"
    using is_stale_eq by blast
  have get: "db_floating_ip_get_by_address E ctx a w = (Inr r, w)"
    using nf r by (simp add: db_floating_ip_get_by_address_def checked_def)
  have ad: "fl_address r = a" using r by (rule find_floating_address)
  show ?thesis
  proof (cases "stale ctx r")
    case True
    have "migrate_start_address E ctx iu a w =
        (Inr (), w\<lparr>log_lines := log_lines w @ (ls @ [WarnWillNotMigrate a iu])\<rparr>)"
      using get st True by (simp add: migrate_start_address_def monad_defs)
    then show ?thesis
      unfolding step_ok_def using True sa lookup_single [OF r, of b ctx None for b]
      by (intro exI [of _ "w\<lparr>log_lines := log_lines w @ (ls @ [WarnWillNotMigrate a iu])\<rparr>"]
          exI [of _ "[]"] exI [of _ "ls @ [WarnWillNotMigrate a iu]"]) simp
  next
    case False
    then obtain fx where f: "find (\<lambda>x. Some (fx_id x) = fl_fixed_ip_id r) (fixed_ips w) = Some fx"
      using fx by blast
    let ?tbl = "update_floating a (\<lambda>x. x\<lparr>fl_host := None\<rparr>) (floating_ips w)"
    let ?c = "RemoveFloatingIp a (fx_address fx) (or_interface E (fl_interface r)) (join_network w fx)"
    let ?cs = "[(self_host E, ?c), (self_host E, CleanConntrack (fx_address fx))]"
    let ?w' = "w\<lparr>log_lines := log_lines w @ ls, l3_log := l3_log w @ ?cs, floating_ips := ?tbl\<rparr>"
    have "migrate_start_address E ctx iu a w = (Inr (), ?w')"
      using get st False f nf nl r ad
      by (simp add: migrate_start_address_def monad_defs db_floating_ip_update_def
          db_fixed_ip_get_def l3driver_def join_network_def Let_def)
    then show ?thesis
      unfolding step_ok_def using False sa lookup_single [OF r, of b ctx None for b]
      by (intro exI [of _ ?w'] exI [of _ ?cs] exI [of _ ls]) simp
  qed
qed

lemma count_list_distinct: "distinct xs \<Longrightarrow> count_list xs a = (if a \<in> set xs then 1 else 0)"
  by (induction xs) auto

lemma count_list_map_Some: "count_list (map Some xs) (Some a) = count_list xs a"
  by (induction xs) auto

lemma count_list_filter: "count_list (filter P xs) a = (if P a then count_list xs a else 0)"
  by (induction xs) auto



text \<open>
  C8, as the code has it. No collaborator fails, the list is not empty, source and
  destination differ, and every address is resolvable (it has a record in the store; the
  loops fetch each address with no handler around the fetch). Then \<open>migrate_instance_start\<close> followed by
  \<open>migrate_instance_finish\<close> (same list, source and destination) both return. An
  address that is not stale ends with its recorded host equal to the destination, and the
  finish phase issued one \<open>add_floating_ip\<close> for it per occurrence in the list: exactly
  one when the list has no address twice. A stale address (the
  ownership check fails or the record is unbound) keeps its record as it was, is logged as
  skipped in each phase, and gets no \<open>add_floating_ip\<close>.
\<close>

theorem migrate_start_then_finish:
  assumes nf: "\<forall>w c. fault E w c = None" and nl: "\<forall>w c. l3_fault E w c = None"
    and ne: "floating_addresses \<noteq> []" and sd: "source \<noteq> dest"
    and res: "\<forall>a \<in> set floating_addresses. resolvable ctx w a"
    and s: "migrate_instance_start E ctx instance_uuid floating_addresses source dest w = (r1, w1)"
    and f: "migrate_instance_finish E ctx instance_uuid floating_addresses None source dest w1 = (r2, w2)"
  shows "r1 = Inr () \<and> r2 = Inr () \<and>
    (\<forall>a \<in> set floating_addresses.
       if stale_address ctx w a then
         find_floating a (floating_ips w2) = find_floating a (floating_ips w)
         \<and> WarnWillNotMigrate a instance_uuid \<in> set (drop (length (log_lines w)) (log_lines w1))
         \<and> WarnWillNotSetup a instance_uuid \<in> set (drop (length (log_lines w1)) (log_lines w2))
         \<and> count_list (map (added_address \<circ> snd) (drop (length (l3_log w1)) (l3_log w2))) (Some a) = 0
       else
         map_option fl_host (find_floating a (floating_ips w2)) = Some dest
         \<and> count_list (map (added_address \<circ> snd) (drop (length (l3_log w1)) (l3_log w2))) (Some a)
             = count_list floating_addresses a
         \<and> (distinct floating_addresses \<longrightarrow>
             count_list (map (added_address \<circ> snd) (drop (length (l3_log w1)) (l3_log w2))) (Some a) = 1))"
proof -
  let ?as = "floating_addresses"
  let ?wa = "w\<lparr>log_lines := log_lines w @ [InfoMigrationStart instance_uuid]\<rparr>"
  have sa: "\<And>b. stale_address ctx ?wa b = stale_address ctx w b"
    by (rule same_tables) simp_all
  have ra: "\<And>b. resolvable ctx ?wa b = resolvable ctx w b"
    by (rule same_tables) simp_all
  have s': "for_each ?as (migrate_start_address E ctx instance_uuid) ?wa = (r1, w1)"
    using s ne sd by (simp add: migrate_instance_start_def thenE_def bindE_def log_def)
  have step1: "\<And>a w. resolvable ctx w a \<Longrightarrow>
      step_ok ctx None (\<lambda>a. [None, None]) (\<lambda>a. WarnWillNotMigrate a instance_uuid) [a] w
        (migrate_start_address E ctx instance_uuid a w)"
    by (rule start_address_ok [OF nf nl])
  have all1: "\<forall>a \<in> set ?as. resolvable ctx ?wa a"
    using res by (simp only: ra)
  have "step_ok ctx None (\<lambda>a. [None, None]) (\<lambda>a. WarnWillNotMigrate a instance_uuid) ?as ?wa
          (r1, w1)"
    using for_each_step_ok [OF step1 all1] by (simp only: s')
  then obtain ls1 where o1: "r1 = Inr ()"
    and f1': "fixed_ips w1 = fixed_ips ?wa"
    and l1': "\<forall>b. find_floating b (floating_ips w1) =
               map_option (retag ctx None (b \<in> set ?as)) (find_floating b (floating_ips ?wa))"
    and g1': "log_lines w1 = log_lines ?wa @ ls1"
    and n1': "\<forall>a \<in> set ?as. stale_address ctx ?wa a \<longrightarrow> WarnWillNotMigrate a instance_uuid \<in> set ls1"
    unfolding step_ok_def by blast
  have f1: "fixed_ips w1 = fixed_ips w" using f1' by simp
  have l1: "\<forall>b. find_floating b (floating_ips w1) =
               map_option (retag ctx None (b \<in> set ?as)) (find_floating b (floating_ips w))"
    using l1' by simp
  have g1: "log_lines w1 = log_lines w @ [InfoMigrationStart instance_uuid] @ ls1"
    using g1' by simp
  have n1: "\<forall>a \<in> set ?as. stale_address ctx w a \<longrightarrow> WarnWillNotMigrate a instance_uuid \<in> set ls1"
    using n1' by (simp only: sa)
  have same1: "\<And>b. stale_address ctx w1 b = stale_address ctx w b"
    "\<And>b. resolvable ctx w1 b = resolvable ctx w b"
    using retag_transfer [OF l1 f1] by auto
  let ?wb = "w1\<lparr>log_lines := log_lines w1 @ [InfoMigrationFinish instance_uuid]\<rparr>"
  have sb: "\<And>b. stale_address ctx ?wb b = stale_address ctx w b"
  proof -
    fix b
    have "stale_address ctx ?wb b = stale_address ctx w1 b"
      by (rule same_tables) simp_all
    then show "stale_address ctx ?wb b = stale_address ctx w b" by (simp only: same1)
  qed
  have rb: "\<And>b. resolvable ctx ?wb b = resolvable ctx w b"
  proof -
    fix b
    have "resolvable ctx ?wb b = resolvable ctx w1 b"
      by (rule same_tables) simp_all
    then show "resolvable ctx ?wb b = resolvable ctx w b" by (simp only: same1)
  qed
  have f': "for_each ?as (migrate_finish_address E ctx instance_uuid dest) ?wb = (r2, w2)"
    using f ne sd
    by (simp add: migrate_instance_finish_def thenE_def bindE_def log_def truthy_str_def)
  have step2: "\<And>a w. resolvable ctx w a \<Longrightarrow>
      step_ok ctx dest (\<lambda>a. [Some a]) (\<lambda>a. WarnWillNotSetup a instance_uuid) [a] w
        (migrate_finish_address E ctx instance_uuid dest a w)"
    by (rule finish_address_ok [OF nf nl])
  have all2: "\<forall>a \<in> set ?as. resolvable ctx ?wb a"
    using res by (simp only: rb)
  have "step_ok ctx dest (\<lambda>a. [Some a]) (\<lambda>a. WarnWillNotSetup a instance_uuid) ?as ?wb
          (r2, w2)"
    using for_each_step_ok [OF step2 all2] by (simp only: f')
  then obtain calls ls2 where o2: "r2 = Inr ()"
    and l2': "\<forall>b. find_floating b (floating_ips w2) =
               map_option (retag ctx dest (b \<in> set ?as)) (find_floating b (floating_ips ?wb))"
    and c2': "l3_log w2 = l3_log ?wb @ calls"
    and t2': "map (added_address \<circ> snd) calls
               = concat (map (\<lambda>a. [Some a]) (filter (\<lambda>a. \<not> stale_address ctx ?wb a) ?as))"
    and g2': "log_lines w2 = log_lines ?wb @ ls2"
    and n2': "\<forall>a \<in> set ?as. stale_address ctx ?wb a \<longrightarrow> WarnWillNotSetup a instance_uuid \<in> set ls2"
    unfolding step_ok_def by blast
  have l2: "\<forall>b. find_floating b (floating_ips w2) =
               map_option (retag ctx dest (b \<in> set ?as)) (find_floating b (floating_ips w1))"
    using l2' by simp
  have c2: "l3_log w2 = l3_log w1 @ calls" using c2' by simp
  have t2: "map (added_address \<circ> snd) calls
               = concat (map (\<lambda>a. [Some a]) (filter (\<lambda>a. \<not> stale_address ctx w a) ?as))"
    using t2' by (simp only: sb)
  have g2: "log_lines w2 = log_lines w1 @ [InfoMigrationFinish instance_uuid] @ ls2"
    using g2' by simp
  have n2: "\<forall>a \<in> set ?as. stale_address ctx w a \<longrightarrow> WarnWillNotSetup a instance_uuid \<in> set ls2"
    using n2' by (simp only: sb)
  have cm: "\<And>xs. concat (map (\<lambda>a. [Some a]) xs) = map Some xs"
    by (induct_tac xs) simp_all
  have tags: "map (added_address \<circ> snd) (drop (length (l3_log w1)) (l3_log w2))
                = map Some (filter (\<lambda>a. \<not> stale_address ctx w a) ?as)"
    by (simp add: c2 t2 cm)
  have d1: "drop (length (log_lines w)) (log_lines w1) = [InfoMigrationStart instance_uuid] @ ls1"
    by (simp add: g1)
  have d2: "drop (length (log_lines w1)) (log_lines w2) = [InfoMigrationFinish instance_uuid] @ ls2"
    by (simp add: g2)
  have "\<forall>a \<in> set ?as.
       if stale_address ctx w a then
         find_floating a (floating_ips w2) = find_floating a (floating_ips w)
         \<and> WarnWillNotMigrate a instance_uuid \<in> set (drop (length (log_lines w)) (log_lines w1))
         \<and> WarnWillNotSetup a instance_uuid \<in> set (drop (length (log_lines w1)) (log_lines w2))
         \<and> count_list (map (added_address \<circ> snd) (drop (length (l3_log w1)) (l3_log w2))) (Some a) = 0
       else
         map_option fl_host (find_floating a (floating_ips w2)) = Some dest
         \<and> count_list (map (added_address \<circ> snd) (drop (length (l3_log w1)) (l3_log w2))) (Some a)
             = count_list floating_addresses a
         \<and> (distinct floating_addresses \<longrightarrow>
             count_list (map (added_address \<circ> snd) (drop (length (l3_log w1)) (l3_log w2))) (Some a) = 1)"
  proof
    fix a assume a: "a \<in> set ?as"
    then obtain r where r: "find_floating a (floating_ips w) = Some r"
      using res by (auto simp: resolvable_def split: option.splits)
    have st: "stale_address ctx w a = stale ctx r" by (simp add: stale_address_def r)
    have look: "find_floating a (floating_ips w2) = Some (retag ctx dest True (retag ctx None True r))"
      using l1 l2 a r by simp
    have cnt: "count_list (map (added_address \<circ> snd) (drop (length (l3_log w1)) (l3_log w2))) (Some a)
        = (if stale ctx r then 0 else count_list floating_addresses a)"
      by (simp add: tags count_list_map_Some count_list_filter st)
    have one: "distinct floating_addresses \<longrightarrow> count_list floating_addresses a = 1"
      using a by (simp add: count_list_distinct)
    show "if stale_address ctx w a then
         find_floating a (floating_ips w2) = find_floating a (floating_ips w)
         \<and> WarnWillNotMigrate a instance_uuid \<in> set (drop (length (log_lines w)) (log_lines w1))
         \<and> WarnWillNotSetup a instance_uuid \<in> set (drop (length (log_lines w1)) (log_lines w2))
         \<and> count_list (map (added_address \<circ> snd) (drop (length (l3_log w1)) (l3_log w2))) (Some a) = 0
       else
         map_option fl_host (find_floating a (floating_ips w2)) = Some dest
         \<and> count_list (map (added_address \<circ> snd) (drop (length (l3_log w1)) (l3_log w2))) (Some a)
             = count_list floating_addresses a
         \<and> (distinct floating_addresses \<longrightarrow>
             count_list (map (added_address \<circ> snd) (drop (length (l3_log w1)) (l3_log w2))) (Some a) = 1)"
    proof (cases "stale ctx r")
      case True
      have "WarnWillNotMigrate a instance_uuid \<in> set ls1" "WarnWillNotSetup a instance_uuid \<in> set ls2"
        using a n1 n2 True st by simp_all
      then show ?thesis using True by (simp add: cnt st look r retag_def d1 d2)
    next
      case False
      then show ?thesis using one by (simp add: cnt st look retag_def)
    qed
  qed
  with o1 o2 show ?thesis by blast
qed


theorem migrate_start_then_finish_witness:
  "fst (migrate_instance_start quiet_env ctx_p ''inst1'' moved_addresses
          (Some ''hostA'') (Some ''hostB'') world0) = Inr ()
   \<and> fst (migrate_instance_finish quiet_env ctx_p ''inst1'' moved_addresses None
          (Some ''hostA'') (Some ''hostB'') world_started) = Inr ()
   \<and> map_option fl_host (find_floating ''172.24.4.1'' (floating_ips world_finished))
       = Some (Some ''hostB'')
   \<and> count_list (map (added_address \<circ> snd)
         (drop (length (l3_log world_started)) (l3_log world_finished))) (Some ''172.24.4.1'') = 1
   \<and> find_floating ''172.24.4.5'' (floating_ips world_finished) = Some float_q
   \<and> WarnWillNotMigrate ''172.24.4.5'' ''inst1''
       \<in> set (drop (length (log_lines world0)) (log_lines world_started))
   \<and> WarnWillNotSetup ''172.24.4.5'' ''inst1''
       \<in> set (drop (length (log_lines world_started)) (log_lines world_finished))
   \<and> count_list (map (added_address \<circ> snd)
         (drop (length (l3_log world_started)) (l3_log world_finished))) (Some ''172.24.4.5'') = 0"
proof -
  have nf: "\<forall>w c. fault quiet_env w c = None" and nl: "\<forall>w c. l3_fault quiet_env w c = None"
    by (simp_all add: quiet_env_def)
  have ne: "moved_addresses \<noteq> []" and di: "distinct moved_addresses"
    and sd: "Some ''hostA'' \<noteq> Some ''hostB''"
    by (simp_all add: moved_addresses_def)
  have look1: "find_floating ''172.24.4.1'' (floating_ips world0) = Some float_bound"
    and look5: "find_floating ''172.24.4.5'' (floating_ips world0) = Some float_q"
    by (simp_all add: find_floating_def deployment_defs)
  have st1: "\<not> stale ctx_p float_bound" and st5: "stale ctx_p float_q"
    by (simp_all add: stale_def truthy_id_def float_bound_def float_q_def ctx_p_def)
  have fx1: "find (\<lambda>x. Some (fx_id x) = fl_fixed_ip_id float_bound) (fixed_ips world0) \<noteq> None"
    by (simp add: deployment_defs)
  have res: "\<forall>a \<in> set moved_addresses. resolvable ctx_p world0 a"
    by (simp add: moved_addresses_def resolvable_def look1 look5 st5 fx1)
  have sa1: "\<not> stale_address ctx_p world0 ''172.24.4.1''"
    and sa5: "stale_address ctx_p world0 ''172.24.4.5''"
    by (simp_all add: stale_address_def look1 look5 st1 st5)
  have s: "migrate_instance_start quiet_env ctx_p ''inst1'' moved_addresses
             (Some ''hostA'') (Some ''hostB'') world0
           = (fst (migrate_instance_start quiet_env ctx_p ''inst1'' moved_addresses
                (Some ''hostA'') (Some ''hostB'') world0), world_started)"
    by (simp add: world_started_def)
  have f: "migrate_instance_finish quiet_env ctx_p ''inst1'' moved_addresses None
             (Some ''hostA'') (Some ''hostB'') world_started
           = (fst (migrate_instance_finish quiet_env ctx_p ''inst1'' moved_addresses None
                (Some ''hostA'') (Some ''hostB'') world_started), world_finished)"
    by (simp add: world_finished_def)
  show ?thesis
    using migrate_start_then_finish [OF nf nl ne sd res s f] sa1 sa5 di
    by (simp add: moved_addresses_def look5)
qed


text \<open>
  C8 as written fails on two kinds of list. An address without a record stops the phase
  with \<open>FloatingIpNotFoundForAddress\<close>: the address listed after it is bound and owned by
  the caller, and its recorded host is still the source after both phases. An address
  listed twice gets two \<open>add_floating_ip\<close> calls in the finish phase.
\<close>

theorem migrate_unknown_or_repeated_address:
  "fst (migrate_instance_start quiet_env ctx_p ''inst1'' unknown_first
          (Some ''hostA'') (Some ''hostB'') world0)
     = Inl (FloatingIpNotFoundForAddress ''172.24.4.99'')
   \<and> fst (migrate_instance_finish quiet_env ctx_p ''inst1'' unknown_first None
          (Some ''hostA'') (Some ''hostB'')
          (snd (migrate_instance_start quiet_env ctx_p ''inst1'' unknown_first
                  (Some ''hostA'') (Some ''hostB'') world0)))
     = Inl (FloatingIpNotFoundForAddress ''172.24.4.99'')
   \<and> map_option fl_host (find_floating ''172.24.4.1'' (floating_ips
          (snd (migrate_instance_finish quiet_env ctx_p ''inst1'' unknown_first None
                  (Some ''hostA'') (Some ''hostB'')
                  (snd (migrate_instance_start quiet_env ctx_p ''inst1'' unknown_first
                          (Some ''hostA'') (Some ''hostB'') world0))))))
     = Some (Some ''hostA'')
   \<and> count_list (map (added_address \<circ> snd)
         (drop (length (l3_log (snd (migrate_instance_start quiet_env ctx_p ''inst1'' listed_twice
                                       (Some ''hostA'') (Some ''hostB'') world0))))
            (l3_log (snd (migrate_instance_finish quiet_env ctx_p ''inst1'' listed_twice None
                            (Some ''hostA'') (Some ''hostB'')
                            (snd (migrate_instance_start quiet_env ctx_p ''inst1'' listed_twice
                                    (Some ''hostA'') (Some ''hostB'') world0)))))))
         (Some ''172.24.4.1'')
     = 2"
proof -
  let ?w1 = "world0\<lparr>log_lines := [InfoMigrationStart ''inst1'']\<rparr>"
  let ?w2 = "world0\<lparr>log_lines := [InfoMigrationStart ''inst1'', InfoMigrationFinish ''inst1'']\<rparr>"
  have s1: "migrate_instance_start quiet_env ctx_p ''inst1'' unknown_first
              (Some ''hostA'') (Some ''hostB'') world0
            = (Inl (FloatingIpNotFoundForAddress ''172.24.4.99''), ?w1)"
    by (simp add: unknown_first_def migrate_instance_start_def migrate_start_address_def
        truthy_str_def db_defs monad_defs deployment_defs)
  have f1: "migrate_instance_finish quiet_env ctx_p ''inst1'' unknown_first None
              (Some ''hostA'') (Some ''hostB'') ?w1
            = (Inl (FloatingIpNotFoundForAddress ''172.24.4.99''), ?w2)"
    by (simp add: unknown_first_def migrate_instance_finish_def migrate_finish_address_def
        truthy_str_def Let_def db_defs monad_defs deployment_defs)
  have h1: "map_option fl_host (find_floating ''172.24.4.1'' (floating_ips ?w2)) = Some (Some ''hostA'')"
    by (simp add: find_floating_def deployment_defs)
  let ?remove = "(Some ''hostA'', RemoveFloatingIp ''172.24.4.1'' ''10.0.0.5'' None (Some net1))"
  let ?clean = "(Some ''hostA'', CleanConntrack ''10.0.0.5'')"
  let ?add = "(Some ''hostA'', AddFloatingIp ''172.24.4.1'' ''10.0.0.5'' None (Some net1))"
  let ?w3 = "world0\<lparr>floating_ips := [float_bound\<lparr>fl_host := None\<rparr>, float_multi, float_auto,
                 float_free, float_q, float_q_auto],
               l3_log := [?remove, ?clean, ?remove, ?clean],
               log_lines := [InfoMigrationStart ''inst1'']\<rparr>"
  have s2: "migrate_instance_start quiet_env ctx_p ''inst1'' listed_twice
              (Some ''hostA'') (Some ''hostB'') world0 = (Inr (), ?w3)"
    by (simp add: listed_twice_def migrate_instance_start_def migrate_start_address_def
        is_stale_floating_ip_address_def floating_ip_owned_by_project_def l3driver_def
        or_interface_def truthy_id_def truthy_str_def db_defs monad_defs deployment_defs)
  have f2: "l3_log (snd (migrate_instance_finish quiet_env ctx_p ''inst1'' listed_twice None
              (Some ''hostA'') (Some ''hostB'') ?w3))
            = [?remove, ?clean, ?remove, ?clean, ?add, ?add]"
    by (simp add: listed_twice_def migrate_instance_finish_def migrate_finish_address_def
        is_stale_floating_ip_address_def floating_ip_owned_by_project_def l3driver_def
        or_interface_def truthy_id_def truthy_str_def Let_def db_defs monad_defs deployment_defs)
  show ?thesis
    unfolding s1 s2 snd_conv fst_conv f1 f2 h1 by simp
qed

subsection \<open>Local association: driver failure\<close>

text \<open>
  C3, as the code has it. In \<open>u_associate_floating_ip\<close>, when the store binding was set
  and the L3 driver's \<open>add_floating_ip\<close> then fails with a process-execution error, the
  handler asks the store to undo the binding. When that undo does not itself raise, the
  binding is undone before the error leaves: the call raises \<open>NoFloatingIpInterface\<close>
  when the driver's message contains \<open>Cannot find device\<close> and the driver's own error
  otherwise, and in the world it leaves the floating IP is unbound.
\<close>

theorem associate_driver_failure_undone:
  assumes bound: "db_floating_ip_fixed_ip_associate E ctx fa fxa (self_host E) w = (Inr (Some (fx, nw)), w1)"
    and fails: "l3_fault E w1 (AddFloatingIp fa fxa (or_interface E interface) nw)
                  = Some (ProcessExecutionError msg)"
    and undo: "\<forall>w'. fault E w' (DbFloatingIpDisassociate fa) = None"
  shows "fst (u_associate_floating_ip E ctx fa fxa interface iu w) =
           Inl (if str_in ''Cannot find device'' msg
                then NoFloatingIpInterface (or_interface E interface)
                else ProcessExecutionError msg)
     \<and> map_option fl_fixed_ip_id (find_floating fa
          (floating_ips (snd (u_associate_floating_ip E ctx fa fxa interface iu w)))) = Some None"
proof -
  from bound obtain r where r: "find_floating fa (floating_ips w) = Some r"
    and w1: "w1 = w\<lparr>floating_ips :=
                update_floating fa (\<lambda>x. x\<lparr>fl_fixed_ip_id := Some (fx_id fx), fl_host := self_host E\<rparr>)
                  (floating_ips w)\<rparr>"
    by (auto simp: db_floating_ip_fixed_ip_associate_def checked_def split: option.splits if_splits)
  have f1: "find_floating fa (floating_ips w1) =
      Some (r\<lparr>fl_fixed_ip_id := Some (fx_id fx), fl_host := self_host E\<rparr>)"
    by (simp add: w1 find_floating_update r)
  let ?w2 = "w1\<lparr>l3_log := l3_log w1 @ [(self_host E, AddFloatingIp fa fxa (or_interface E interface) nw)]\<rparr>"
  let ?w3 = "?w2\<lparr>floating_ips := update_floating fa (\<lambda>x. x\<lparr>fl_fixed_ip_id := None, fl_host := None\<rparr>)
                 (floating_ips ?w2)\<rparr>"
  have drv: "l3driver E (AddFloatingIp fa fxa (or_interface E interface) nw) w1
      = (Inl (ProcessExecutionError msg), ?w2)"
    using fails by (simp add: l3driver_def)
  have dis: "\<exists>x. db_floating_ip_disassociate E ctx fa ?w2 = (Inr x, ?w3)"
    using undo f1 by (simp add: db_floating_ip_disassociate_def checked_def)
  have f3: "map_option fl_fixed_ip_id (find_floating fa (floating_ips ?w3)) = Some None"
    by (simp add: find_floating_update f1)
  from dis obtain x where dis': "db_floating_ip_disassociate E ctx fa ?w2 = (Inr x, ?w3)" by blast
  have "u_associate_floating_ip E ctx fa fxa interface iu w =
     (if str_in ''Cannot find device'' msg
      then (Inl (NoFloatingIpInterface (or_interface E interface)),
            ?w3\<lparr>log_lines := log_lines ?w3 @ [ErrInterfaceNotFound (or_interface E interface)]\<rparr>)
      else (Inl (ProcessExecutionError msg), ?w3))"
    using bound drv dis'
    by (simp add: u_associate_floating_ip_def monad_defs Let_def del: str_in.simps)
  then show ?thesis using f3 by (simp del: str_in.simps)
qed

theorem associate_driver_failure_undone_witness:
  "fst (u_associate_floating_ip no_device_env ctx_q ''172.24.4.5'' ''10.0.0.5'' None (Some ''inst1'') world0)
     = Inl (NoFloatingIpInterface None)
   \<and> map_option fl_fixed_ip_id (find_floating ''172.24.4.5'' (floating_ips (snd
        (u_associate_floating_ip no_device_env ctx_q ''172.24.4.5'' ''10.0.0.5'' None (Some ''inst1'') world0))))
     = Some None
   \<and> fst (u_associate_floating_ip iptables_fails_env ctx_q ''172.24.4.5'' ''10.0.0.5'' None (Some ''inst1'') world0)
     = Inl (ProcessExecutionError ''iptables: resource busy'')
   \<and> map_option fl_fixed_ip_id (find_floating ''172.24.4.5'' (floating_ips (snd
        (u_associate_floating_ip iptables_fails_env ctx_q ''172.24.4.5'' ''10.0.0.5'' None (Some ''inst1'') world0))))
     = Some None"
proof -
  let ?bound = "world0\<lparr>floating_ips := [float_bound, float_multi, float_auto, float_free,
      float_q\<lparr>fl_fixed_ip_id := Some 1, fl_host := Some ''hostA''\<rparr>, float_q_auto]\<rparr>"
  have b1: "db_floating_ip_fixed_ip_associate no_device_env ctx_q ''172.24.4.5'' ''10.0.0.5''
              (self_host no_device_env) world0 = (Inr (Some (fixed1, Some net1)), ?bound)"
    by (simp add: no_device_env_def db_defs checked_def deployment_defs)
  have b2: "db_floating_ip_fixed_ip_associate iptables_fails_env ctx_q ''172.24.4.5'' ''10.0.0.5''
              (self_host iptables_fails_env) world0 = (Inr (Some (fixed1, Some net1)), ?bound)"
    by (simp add: iptables_fails_env_def db_defs checked_def deployment_defs)
  have l1: "l3_fault no_device_env ?bound
              (AddFloatingIp ''172.24.4.5'' ''10.0.0.5'' (or_interface no_device_env None) (Some net1))
            = Some (ProcessExecutionError ''Cannot find device eth9'')"
    by (simp add: no_device_env_def)
  have l2: "l3_fault iptables_fails_env ?bound
              (AddFloatingIp ''172.24.4.5'' ''10.0.0.5'' (or_interface iptables_fails_env None) (Some net1))
            = Some (ProcessExecutionError ''iptables: resource busy'')"
    by (simp add: iptables_fails_env_def)
  have u1: "\<forall>w'. fault no_device_env w' (DbFloatingIpDisassociate ''172.24.4.5'') = None"
    and u2: "\<forall>w'. fault iptables_fails_env w' (DbFloatingIpDisassociate ''172.24.4.5'') = None"
    by (simp_all add: no_device_env_def iptables_fails_env_def quiet_env_def)
  have o1: "or_interface no_device_env None = None"
    and o2: "or_interface iptables_fails_env None = None"
    by (simp_all add: or_interface_def no_device_env_def iptables_fails_env_def quiet_env_def)
  show ?thesis
    using associate_driver_failure_undone [OF b1 l1 u1, of "Some ''inst1''"]
      associate_driver_failure_undone [OF b2 l2 u2, of "Some ''inst1''"]
    by (simp add: o1 o2)
qed

text \<open>
  C3 as written fails in two cases. The undo is an unprotected store call inside the
  handler: when it raises, its error is what leaves the method and the floating IP stays
  bound. The handler catches process-execution errors only: another exception of the
  driver leaves the method with no undo, and the floating IP stays bound.
\<close>

theorem associate_driver_failure_binding_left:
  "fst (u_associate_floating_ip undo_fails_env ctx_q ''172.24.4.5'' ''10.0.0.5'' None
          (Some ''inst1'') world0)
     = Inl (OtherError ''store down'')
   \<and> map_option fl_fixed_ip_id (find_floating ''172.24.4.5'' (floating_ips (snd
        (u_associate_floating_ip undo_fails_env ctx_q ''172.24.4.5'' ''10.0.0.5'' None
           (Some ''inst1'') world0))))
     = Some (Some (fx_id fixed1))
   \<and> fst (u_associate_floating_ip driver_crashes_env ctx_q ''172.24.4.5'' ''10.0.0.5'' None
          (Some ''inst1'') world0)
     = Inl (OtherError ''driver crashed'')
   \<and> map_option fl_fixed_ip_id (find_floating ''172.24.4.5'' (floating_ips (snd
        (u_associate_floating_ip driver_crashes_env ctx_q ''172.24.4.5'' ''10.0.0.5'' None
           (Some ''inst1'') world0))))
     = Some (Some (fx_id fixed1))"
  by (simp add: u_associate_floating_ip_def or_interface_def l3driver_def
      undo_fails_env_def iptables_fails_env_def driver_crashes_env_def
      db_defs monad_defs deployment_defs)

subsection \<open>Quota reservations\<close>

text \<open>
  In \<open>allocate_floating_ip\<close> a reservation that was obtained is settled on every path: the
  quota log gains the reservation followed by one commit (the call returned), by one
  rollback (the store assignment or the notifier raised), or by the commit that raised and
  the rollback of the handler.
\<close>

lemma allocate_reservation_settled:
  assumes "reserve_answer E w ctx 1 = Inr h"
  shows "\<exists>tail. quota_log (snd (allocate_floating_ip E ctx project False pool w))
            = quota_log w @ Reserved h 1 # tail
          \<and> tail \<in> {[Commit h], [Rollback h], [Commit h, Rollback h]}"
proof -
  define p where "p = (case pool of Some p \<Rightarrow> if p \<noteq> [] then p else default_floating_pool E
                        | None \<Rightarrow> default_floating_pool E)"
  define w1 where "w1 = w\<lparr>quota_log := quota_log w @ [Reserved h 1]\<rparr>"
  define body where "body =
     bindE (db_floating_ip_allocate_address E ctx project p) (\<lambda>floating_ip.
       thenE (notify E EvAllocate (AllocatePayload project floating_ip))
      (thenE (quotas_commit E ctx h) (returnE floating_ip)))"
  have unf: "allocate_floating_ip E ctx project False pool w =
      try_except body (\<lambda>e. save_and_reraise_exception e (quotas_rollback E ctx h)) w1"
    using assms
    by (simp add: allocate_floating_ip_def quotas_reserve_def bindE_def returnE_def
        try_except_def p_def w1_def body_def Let_def)
  have body: "(\<exists>a w2. body w1 = (Inr a, w2) \<and> quota_log w2 = quota_log w1 @ [Commit h])
      \<or> (\<exists>e w2. body w1 = (Inl e, w2)
            \<and> (quota_log w2 = quota_log w1 \<or> quota_log w2 = quota_log w1 @ [Commit h]))"
    by (auto simp: body_def bindE_def thenE_def returnE_def notify_def checked_def
        quotas_commit_def db_floating_ip_allocate_address_def split: option.splits)
  have rb: "\<And>e w2. quota_log (snd (save_and_reraise_exception e (quotas_rollback E ctx h) w2))
      = quota_log w2 @ [Rollback h]"
    by (simp add: save_and_reraise_exception_def quotas_rollback_def split: option.splits)
  have q1: "quota_log w1 = quota_log w @ [Reserved h 1]" by (simp add: w1_def)
  from body consider
      (ok) a w2 where "body w1 = (Inr a, w2)" "quota_log w2 = quota_log w1 @ [Commit h]"
    | (err) e w2 where "body w1 = (Inl e, w2)"
        "quota_log w2 = quota_log w1 \<or> quota_log w2 = quota_log w1 @ [Commit h]"
    by blast
  then show ?thesis
  proof cases
    case ok
    then show ?thesis by (simp add: unf try_except_def q1)
  next
    case err
    then show ?thesis using rb [of e w2] by (auto simp add: unf try_except_def q1)
  qed
qed

text \<open>
  C1 fails in \<open>deallocate_floating_ip\<close>. Project \<open>Q\<close> deallocates its address; the
  reservation of \<open>-1\<close> is obtained, then the store's release raises. The exception leaves
  the method with the reservation neither committed nor rolled back: the quota log ends
  with the reservation.
\<close>

theorem deallocate_release_raises_reservation_open:
  "deallocate_floating_ip release_fails_env ctx_q ''172.24.4.5'' False world0 =
    (Inl (OtherError ''store failure''),
     world0\<lparr>notifications := [(EvDeallocate, DeallocatePayload (Some ''Q'') ''172.24.4.5'')],
            quota_log := [Reserved [''r1''] (- 1)]\<rparr>)"
  by (simp add: deallocate_floating_ip_def floating_ip_owned_by_project_def
      delete_all_entries_for_ip_def get_dns_domains_def db_dnsdomain_list_def
      floating_dns_get_domains_def instance_dns_get_domains_def notify_def quotas_reserve_def
      truthy_id_def release_fails_env_def db_defs monad_defs deployment_defs)

subsection \<open>Disassociation when the instance's host service is down\<close>

text \<open>
  The local fallback in general. The record is fetched and passes the auto-assigned rule
  and the ownership check, it is bound, its network is multi-host, and the service of the
  instance's host is not registered or is down; no collaborator fails. Then
  \<open>disassociate_floating_ip\<close> returns and the store binding is cleared. The L3 driver is
  left alone exactly when \<^verbatim>\<open>CONF.public_interface\<close> is empty; otherwise one
  \<open>remove_floating_ip\<close> on that interface is issued.
\<close>

lemma disassociate_service_down_local:
  assumes get: "db_floating_ip_get_by_address E ctx address w = (Inr fip, w)"
    and skip: "affect_auto_assigned \<or> \<not> fl_auto_assigned fip"
    and own: "is_admin ctx \<or> fl_project_id fip = project_id ctx"
    and bnd: "truthy_id (fl_fixed_ip_id fip)"
    and fxg: "db_fixed_ip_get E ctx (fl_fixed_ip_id fip) False w = (Inr (fx, n0), w)"
    and nwg: "db_network_get E (elevated ctx) (fx_network_id fx) w = (Inr net, w)"
    and mh: "nw_multi_host net"
    and ing: "db_instance_get_by_uuid E ctx (fx_instance_uuid fx) w = (Inr inst, w)"
    and svg: "db_service_get_by_host_and_topic E (elevated ctx) (in_host inst) (network_topic E) w
                = (Inr svc, w)"
    and down: "case svc of None \<Rightarrow> True | Some s \<Rightarrow> \<not> service_is_up s"
    and nf: "\<forall>w c. fault E w c = None" and nl: "\<forall>w c. l3_fault E w c = None"
  shows "fst (disassociate_floating_ip E ctx address affect_auto_assigned w) = Inr ()
    \<and> map_option fl_fixed_ip_id (find_floating address
         (floating_ips (snd (disassociate_floating_ip E ctx address affect_auto_assigned w)))) = Some None
    \<and> l3_log (snd (disassociate_floating_ip E ctx address affect_auto_assigned w))
        = l3_log w @ (if public_interface E = [] then []
                      else [(self_host E, RemoveFloatingIp address (fx_address fx)
                               (Some (public_interface E)) (join_network w fx))])"
proof -
  have r: "find_floating address (floating_ips w) = Some fip"
    using get nf by (auto simp: db_floating_ip_get_by_address_def checked_def split: option.splits)
  have f: "find (\<lambda>x. Some (fx_id x) = fl_fixed_ip_id fip) (fixed_ips w) = Some fx"
    using fxg nf by (auto simp: db_fixed_ip_get_def checked_def split: option.splits)
  let ?tbl = "update_floating address (\<lambda>x. x\<lparr>fl_fixed_ip_id := None, fl_host := None\<rparr>) (floating_ips w)"
  have dis: "db_floating_ip_disassociate E ctx address w
      = (Inr (Some (fx, join_network w fx)), w\<lparr>floating_ips := ?tbl\<rparr>)"
    using nf r f by (simp add: db_floating_ip_disassociate_def checked_def)
  have look: "map_option fl_fixed_ip_id (find_floating address ?tbl) = Some None"
    by (simp add: find_floating_update r)
  have local: "\<exists>w'. u_disassociate_floating_ip E ctx address None (fx_instance_uuid fx) w = (Inr (), w')
      \<and> floating_ips w' = ?tbl
      \<and> l3_log w' = l3_log w @ (if public_interface E = [] then []
                      else [(self_host E, RemoveFloatingIp address (fx_address fx)
                               (Some (public_interface E)) (join_network w fx))])"
    using dis nf nl
    by (simp add: u_disassociate_floating_ip_def or_interface_def truthy_str_def l3driver_def
        notify_def monad_defs Let_def)
  have c1: "(\<not> affect_auto_assigned \<and> fl_auto_assigned fip) = False"
    using skip by auto
  have c2: "\<And>w. floating_ip_owned_by_project E ctx fip w = (Inr (), w)"
    using own by (auto simp: floating_ip_owned_by_project_def returnE_def)
  have c3: "(case svc of Some s \<Rightarrow> service_is_up s | None \<Rightarrow> False) = False"
    using down by (cases svc) simp_all
  have "disassociate_floating_ip E ctx address affect_auto_assigned w
      = client_exceptions (u_disassociate_floating_ip E ctx address None (fx_instance_uuid fx)) w"
    unfolding disassociate_floating_ip_def
    by (simp add: get c1 c2 c3 bnd fxg nwg mh ing svg bindE_def thenE_def returnE_def
        client_exceptions_def Let_def)
  moreover from local obtain w' where
      "u_disassociate_floating_ip E ctx address None (fx_instance_uuid fx) w = (Inr (), w')"
      "floating_ips w' = ?tbl"
      "l3_log w' = l3_log w @ (if public_interface E = [] then []
                      else [(self_host E, RemoveFloatingIp address (fx_address fx)
                               (Some (public_interface E)) (join_network w fx))])"
    by blast
  ultimately show ?thesis using look by (simp add: client_exceptions_def)
qed


text \<open>
  C6 fails when \<^verbatim>\<open>CONF.public_interface\<close> is set. The network is multi-host and the
  service of the instance's host is registered and down, so \<open>disassociate_floating_ip\<close>
  runs the local step with the interface passed as none; \<open>u_disassociate_floating_ip\<close>
  replaces the interface by \<^verbatim>\<open>CONF.public_interface\<close> and calls the L3 driver. The
  store binding is cleared, and one \<open>remove_floating_ip\<close> is issued.
\<close>

theorem disassociate_service_down_driver_called:
  "disassociate_floating_ip eth0_env ctx_p ''172.24.4.2'' False world0 =
    (Inr (),
     world0\<lparr>floating_ips := [float_bound, float_multi\<lparr>fl_fixed_ip_id := None, fl_host := None\<rparr>,
                float_auto, float_free, float_q, float_q_auto],
        l3_log := [(Some ''hostA'', RemoveFloatingIp ''172.24.4.2'' ''10.0.0.6'' (Some ''eth0'') (Some net2))],
        notifications := [(EvDisassociate, BindingPayload (Some ''P'') (Some ''inst2'') ''172.24.4.2'')]\<rparr>)"
  by (simp add: disassociate_floating_ip_def floating_ip_owned_by_project_def
      u_disassociate_floating_ip_def or_interface_def l3driver_def service_is_up_def elevated_def
      notify_def truthy_id_def truthy_str_def eth0_env_def db_defs monad_defs deployment_defs)

end
